theory Spec2Isabelle
  imports Main "HOL-Library.Word" "HOL-Library.Sublist"
begin

section \<open>The voice inbox server (src/index.ts) as HOL functions\<close>

text \<open>
  The server is one TypeScript file run by Bun. Its functions are pure apart from two
  ambient inputs: the wall clock (\<^verbatim>\<open>new Date()\<close>) and the request. Both are
  made explicit here. What the source takes from the JavaScript runtime (strings, JSON
  values, truthiness, string conversion, \<^verbatim>\<open>Date\<close>) is modelled as ECMAScript
  defines it. Two things are parameters: the doubles of JSON with their truthiness and
  formatting, and the wording of a \<^verbatim>\<open>TypeError\<close>, which is the engine's choice.
\<close>

subsection \<open>Strings\<close>

text \<open>
  A JavaScript string is a sequence of 16-bit code units. \<open>str\<close> writes an ASCII
  literal as such a sequence.
\<close>

type_synonym js_string = "16 word list"

definition str :: "string \<Rightarrow> js_string" where
  "str s = map (\<lambda>c. of_char c) s"

text \<open>
  \<^verbatim>\<open>String.prototype.trim\<close> removes the code units of ECMAScript's WhiteSpace and
  LineTerminator productions from both ends.
\<close>

definition is_white_space :: "16 word \<Rightarrow> bool" where
  "is_white_space c \<longleftrightarrow>
     c \<in> {0x0009, 0x000A, 0x000B, 0x000C, 0x000D, 0x0020, 0x00A0, 0x1680,
          0x2000, 0x2001, 0x2002, 0x2003, 0x2004, 0x2005, 0x2006, 0x2007,
          0x2008, 0x2009, 0x200A, 0x2028, 0x2029, 0x202F, 0x205F, 0x3000, 0xFEFF}"

definition trim :: "js_string \<Rightarrow> js_string" where
  "trim s = rev (dropWhile is_white_space (rev (dropWhile is_white_space s)))"

text \<open>
  \<^verbatim>\<open>s.padStart(n, filler)\<close>: the filler is repeated and cut to the missing
  length; a string that is long enough, or an empty filler, leaves \<open>s\<close> as it is.
\<close>

definition padStart :: "nat \<Rightarrow> js_string \<Rightarrow> js_string \<Rightarrow> js_string" where
  "padStart n filler s =
     (let k = n - length s in take k (concat (replicate k filler)) @ s)"

text \<open>
  \<^verbatim>\<open>String(n)\<close> for an integer-valued number below \<open>10^21\<close> in magnitude (every
  number the server formats is a calendar field): its decimal digits, with a minus sign
  when negative.
\<close>

definition digit :: "nat \<Rightarrow> 16 word" where
  "digit d = of_nat (48 + d)"

fun decimal :: "nat \<Rightarrow> js_string" where
  "decimal n = (if n < 10 then [digit n] else decimal (n div 10) @ [digit (n mod 10)])"

declare decimal.simps [simp del]

definition String_of :: "int \<Rightarrow> js_string" where
  "String_of i = (if i < 0 then str ''-'' @ decimal (nat (- i)) else decimal (nat i))"

text \<open>\<^verbatim>\<open>s.split(sep)[0]\<close> for a one-unit separator: the part before its first occurrence.\<close>

definition split_first :: "16 word \<Rightarrow> js_string \<Rightarrow> js_string" where
  "split_first sep s = takeWhile (\<lambda>c. c \<noteq> sep) s"

subsection \<open>JSON values, thrown values and the runtime's parameters\<close>

text \<open>
  The value \<^verbatim>\<open>request.json()\<close> resolves to. Numbers are doubles; the type \<open>'n\<close>
  stands for them. An object is the list of its own properties in insertion order.
  A property read that finds nothing yields \<^verbatim>\<open>undefined\<close>, which is \<open>None\<close>.
\<close>

datatype 'n json =
    JNull
  | JBool bool
  | JNum 'n
  | JStr js_string
  | JArr "'n json list"
  | JObj "(js_string \<times> 'n json) list"

text \<open>
  A thrown value, as the \<^verbatim>\<open>catch\<close> clause of \<^verbatim>\<open>handleConvert\<close> tells them apart:
  an instance of \<^verbatim>\<open>Error\<close> with its message, or anything else.
\<close>

datatype thrown = ErrorInstance js_string | OtherThrown

record 'n runtime =
  number_truthy :: "'n \<Rightarrow> bool"
  number_toString :: "'n \<Rightarrow> js_string"
  null_read_message :: js_string
  no_primitive_message :: js_string

text \<open>\<^verbatim>\<open>ToBoolean\<close>, on a property read.\<close>

fun truthy :: "'n runtime \<Rightarrow> 'n json option \<Rightarrow> bool" where
  "truthy rt None = False"
| "truthy rt (Some JNull) = False"
| "truthy rt (Some (JBool b)) = b"
| "truthy rt (Some (JNum n)) = number_truthy rt n"
| "truthy rt (Some (JStr s)) = (s \<noteq> [])"
| "truthy rt (Some (JArr xs)) = True"
| "truthy rt (Some (JObj kvs)) = True"

text \<open>\<^verbatim>\<open>v || d\<close>: the left operand when it is truthy, the right one otherwise.\<close>

fun or_else :: "'n runtime \<Rightarrow> 'n json option \<Rightarrow> 'n json \<Rightarrow> 'n json" where
  "or_else rt None d = d"
| "or_else rt (Some v) d = (if truthy rt (Some v) then v else d)"

text \<open>\<^verbatim>\<open>typeof v === 'string'\<close>, and the string such a value is.\<close>

fun typeof_string :: "'n json option \<Rightarrow> bool" where
  "typeof_string (Some (JStr s)) = True"
| "typeof_string _ = False"

fun string_value :: "'n json option \<Rightarrow> js_string" where
  "string_value (Some (JStr s)) = s"
| "string_value _ = []"

text \<open>
  \<^verbatim>\<open>body.key\<close> on a parsed JSON value, for the keys the server reads (\<^verbatim>\<open>text\<close> and
  \<^verbatim>\<open>source\<close>, which no prototype defines): \<^verbatim>\<open>null\<close> throws a \<^verbatim>\<open>TypeError\<close>, an
  object yields its own property, every other value yields \<^verbatim>\<open>undefined\<close>.
\<close>

fun read_property :: "'n runtime \<Rightarrow> 'n json \<Rightarrow> js_string \<Rightarrow> thrown + 'n json option" where
  "read_property rt JNull k = Inl (ErrorInstance (null_read_message rt))"
| "read_property rt (JObj kvs) k = Inr (map_of kvs k)"
| "read_property rt v k = Inr None"

text \<open>
  \<^verbatim>\<open>ToString\<close>, which a template literal applies to what it interpolates. A plain
  object renders as \<^verbatim>\<open>[object Object]\<close> through \<^verbatim>\<open>Object.prototype.toString\<close>;
  an own property \<^verbatim>\<open>toString\<close> shadows that method, is never callable in parsed JSON,
  and \<^verbatim>\<open>valueOf\<close> returns no primitive, so \<^verbatim>\<open>ToPrimitive\<close> throws a \<^verbatim>\<open>TypeError\<close>.
  An array renders as its elements joined by commas, \<^verbatim>\<open>null\<close> elements as the empty
  string.
\<close>

fun ToString :: "'n runtime \<Rightarrow> 'n json \<Rightarrow> thrown + js_string"
  and join :: "'n runtime \<Rightarrow> 'n json list \<Rightarrow> thrown + js_string" where
  "ToString rt JNull = Inr (str ''null'')"
| "ToString rt (JBool b) = Inr (if b then str ''true'' else str ''false'')"
| "ToString rt (JNum n) = Inr (number_toString rt n)"
| "ToString rt (JStr s) = Inr s"
| "ToString rt (JArr xs) = join rt xs"
| "ToString rt (JObj kvs) =
     (if map_of kvs (str ''toString'') \<noteq> None
      then Inl (ErrorInstance (no_primitive_message rt))
      else Inr (str ''[object Object]''))"
| "join rt [] = Inr []"
| "join rt (x # xs) =
     (case (if x = JNull then Inr [] else ToString rt x) of
        Inl e \<Rightarrow> Inl e
      | Inr s \<Rightarrow>
          if xs = [] then Inr s
          else (case join rt xs of Inl e \<Rightarrow> Inl e | Inr r \<Rightarrow> Inr (s @ str '','' @ r)))"

subsection \<open>The wall clock\<close>

text \<open>
  A \<^verbatim>\<open>Date\<close> object, as the getters the server calls see it: the fields of its
  instant in the server's local time zone, and the fields of the same instant in UTC
  (which \<^verbatim>\<open>toISOString\<close> prints). Months count from 0.
\<close>

record js_date =
  getFullYear :: int
  getMonth :: nat
  getDate :: nat
  getHours :: nat
  getMinutes :: nat
  getUTCFullYear :: int
  getUTCMonth :: nat
  getUTCDate :: nat
  getUTCHours :: nat
  getUTCMinutes :: nat
  getUTCSeconds :: nat
  getUTCMilliseconds :: nat

text \<open>The ranges ECMAScript gives the fields of a valid \<^verbatim>\<open>Date\<close>.\<close>

definition date_fields_ok :: "js_date \<Rightarrow> bool" where
  "date_fields_ok d \<longleftrightarrow>
     - 271821 \<le> getFullYear d \<and> getFullYear d \<le> 275760 \<and>
     getMonth d < 12 \<and> 1 \<le> getDate d \<and> getDate d \<le> 31 \<and>
     getHours d < 24 \<and> getMinutes d < 60 \<and>
     - 271821 \<le> getUTCFullYear d \<and> getUTCFullYear d \<le> 275760 \<and>
     getUTCMonth d < 12 \<and> 1 \<le> getUTCDate d \<and> getUTCDate d \<le> 31 \<and>
     getUTCHours d < 24 \<and> getUTCMinutes d < 60 \<and>
     getUTCSeconds d < 60 \<and> getUTCMilliseconds d < 1000"

text \<open>
  \<^verbatim>\<open>Date.prototype.toISOString\<close>: \<^verbatim>\<open>YYYY-MM-DDTHH:mm:ss.sssZ\<close> in UTC, the year
  with four digits from 0 to 9999 and with a sign and six digits otherwise.
\<close>

definition iso_year :: "int \<Rightarrow> js_string" where
  "iso_year y =
     (if 0 \<le> y \<and> y \<le> 9999 then padStart 4 (str ''0'') (decimal (nat y))
      else (if y < 0 then str ''-'' else str ''+'') @ padStart 6 (str ''0'') (decimal (nat \<bar>y\<bar>)))"

definition iso_date :: "js_date \<Rightarrow> js_string" where
  "iso_date d =
     iso_year (getUTCFullYear d) @ str ''-'' @
     padStart 2 (str ''0'') (decimal (getUTCMonth d + 1)) @ str ''-'' @
     padStart 2 (str ''0'') (decimal (getUTCDate d))"

definition iso_time :: "js_date \<Rightarrow> js_string" where
  "iso_time d =
     padStart 2 (str ''0'') (decimal (getUTCHours d)) @ str '':'' @
     padStart 2 (str ''0'') (decimal (getUTCMinutes d)) @ str '':'' @
     padStart 2 (str ''0'') (decimal (getUTCSeconds d)) @ str ''.'' @
     padStart 3 (str ''0'') (decimal (getUTCMilliseconds d))"

definition toISOString :: "js_date \<Rightarrow> js_string" where
  "toISOString d = iso_date d @ str ''T'' @ iso_time d @ str ''Z''"

subsection \<open>Formatting: timestamp, filename, frontmatter, note\<close>

text \<open>
  Each function that evaluates \<^verbatim>\<open>new Date()\<close> takes the \<^verbatim>\<open>Date\<close> it gets as
  its argument \<open>now\<close>.
\<close>

definition generateTimestamp :: "js_date \<Rightarrow> js_string" where
  "generateTimestamp now =
     (let year = getFullYear now;
          month = padStart 2 (str ''0'') (String_of (int (getMonth now + 1)));
          day = padStart 2 (str ''0'') (String_of (int (getDate now)));
          hours = getHours now;
          minutes = padStart 2 (str ''0'') (String_of (int (getMinutes now)));
          ampm = (if hours \<ge> 12 then str ''pm'' else str ''am'');
          hours = hours mod 12;
          hours = (if hours \<noteq> 0 then hours else 12)
      in String_of year @ str ''-'' @ month @ str ''-'' @ day @ str '' '' @
         String_of (int hours) @ str ''-'' @ minutes @ ampm)"

text \<open>The marker is U+1F3A4 (a microphone), two code units in UTF-16.\<close>

definition emoji :: js_string where
  "emoji = [0xD83C, 0xDFA4]"

definition generateFilename :: "js_date \<Rightarrow> js_string" where
  "generateFilename now = emoji @ str '' '' @ generateTimestamp now"

text \<open>
  The template literal of \<^verbatim>\<open>generateFrontmatter\<close> interpolates \<open>source\<close>, which the
  caller passes unchecked: \<open>ToString\<close> is applied to it and may throw.
\<close>

definition generateFrontmatter :: "'n runtime \<Rightarrow> js_date \<Rightarrow> 'n json \<Rightarrow> thrown + js_string" where
  \<open>generateFrontmatter rt now source =
     (let today = split_first 0x54 (toISOString now) in
      case ToString rt source of
        Inl e \<Rightarrow> Inl e
      | Inr s \<Rightarrow>
          Inr (str ''---\<newline>type: transcription\<newline>created: '' @ today @
               str ''\<newline>source: '' @ s @
               str ''\<newline>template_version: 1\<newline>areas: []\<newline>projects: []\<newline>summary: ""\<newline>---''))\<close>

definition generateNoteContent ::
  "'n runtime \<Rightarrow> js_date \<Rightarrow> js_string \<Rightarrow> 'n json \<Rightarrow> thrown + js_string" where
  "generateNoteContent rt now txt source =
     (case generateFrontmatter rt now source of
        Inl e \<Rightarrow> Inl e
      | Inr frontmatter \<Rightarrow> Inr (frontmatter @ str ''\<newline>\<newline>'' @ txt @ str ''\<newline>''))"

subsection \<open>The convert operation\<close>

text \<open>
  The two shapes \<^verbatim>\<open>handleConvert\<close> returns (the interfaces \<^verbatim>\<open>ConvertResponse\<close>
  and \<^verbatim>\<open>ErrorResponse\<close>), their \<^verbatim>\<open>success\<close> tag, and the object
  \<^verbatim>\<open>JSON.stringify\<close> is given.
\<close>

datatype convert_result =
    ConvertResponse (noteContent: js_string) (filename: js_string)
  | ErrorResponse (error: js_string)

fun success :: "convert_result \<Rightarrow> bool" where
  "success (ConvertResponse nc fn) = True"
| "success (ErrorResponse e) = False"

fun result_object :: "convert_result \<Rightarrow> 'n json" where
  "result_object (ConvertResponse nc fn) =
     JObj [(str ''success'', JBool True), (str ''noteContent'', JStr nc), (str ''filename'', JStr fn)]"
| "result_object (ErrorResponse e) =
     JObj [(str ''success'', JBool False), (str ''error'', JStr e)]"

text \<open>
  The body of the \<^verbatim>\<open>try\<close> block. \<open>request_json\<close> is the outcome of
  \<^verbatim>\<open>await request.json()\<close>: the parsed value, or what the parser threw. \<open>clock i\<close>
  is the \<^verbatim>\<open>Date\<close> that the \<open>i\<close>-th evaluation of \<^verbatim>\<open>new Date()\<close> during this
  request constructs: the frontmatter reads the clock first, the filename second.
\<close>

definition handleConvert_try ::
  "'n runtime \<Rightarrow> (nat \<Rightarrow> js_date) \<Rightarrow> thrown + 'n json \<Rightarrow> thrown + convert_result" where
  \<open>handleConvert_try rt clock request_json =
     (case request_json of
        Inl e \<Rightarrow> Inl e
      | Inr body \<Rightarrow>
          (case read_property rt body (str ''text'') of
             Inl e \<Rightarrow> Inl e
           | Inr body_text \<Rightarrow>
               if \<not> truthy rt body_text \<or> \<not> typeof_string body_text
               then Inr (ErrorResponse (str ''Missing or invalid "text" field''))
               else
                 let txt = trim (string_value body_text) in
                 if length txt = 0
                 then Inr (ErrorResponse (str ''Text cannot be empty''))
                 else
                   (case read_property rt body (str ''source'') of
                      Inl e \<Rightarrow> Inl e
                    | Inr body_source \<Rightarrow>
                        (case generateNoteContent rt (clock 0) txt
                                (or_else rt body_source (JStr (str ''superwhisper''))) of
                           Inl e \<Rightarrow> Inl e
                         | Inr nc \<Rightarrow> Inr (ConvertResponse nc (generateFilename (clock 1)))))))\<close>

text \<open>The \<^verbatim>\<open>catch\<close> clause turns whatever was thrown into a failure.\<close>

fun catch_message :: "thrown \<Rightarrow> js_string" where
  "catch_message (ErrorInstance message) = message"
| "catch_message OtherThrown = str ''Failed to parse request''"

definition handleConvert ::
  "'n runtime \<Rightarrow> (nat \<Rightarrow> js_date) \<Rightarrow> thrown + 'n json \<Rightarrow> convert_result" where
  "handleConvert rt clock request_json =
     (case handleConvert_try rt clock request_json of
        Inr result \<Rightarrow> result
      | Inl e \<Rightarrow> ErrorResponse (catch_message e))"

subsection \<open>The request handler\<close>

text \<open>
  A request, as the handler reads it: its method, the path of its URL and (for the
  convert branch) the outcome of parsing its body. A response: status, headers in
  insertion order, and a body that is absent or the text \<^verbatim>\<open>JSON.stringify\<close> makes
  of a value.
\<close>

record 'n request =
  http_method :: js_string
  pathname :: js_string
  json_outcome :: "thrown + 'n json"

datatype 'n body_init = No_body | JSON_stringify "'n json"

record 'n response =
  status :: nat
  headers :: "(js_string \<times> js_string) list"
  response_body :: "'n body_init"

definition corsHeaders :: "(js_string \<times> js_string) list" where
  "corsHeaders =
     [(str ''Access-Control-Allow-Origin'', str ''*''),
      (str ''Access-Control-Allow-Methods'', str ''GET, POST, OPTIONS''),
      (str ''Access-Control-Allow-Headers'', str ''Content-Type'')]"

definition json_headers :: "(js_string \<times> js_string) list" where
  "json_headers = (str ''Content-Type'', str ''application/json'') # corsHeaders"

definition handler :: "'n runtime \<Rightarrow> (nat \<Rightarrow> js_date) \<Rightarrow> 'n request \<Rightarrow> 'n response" where
  "handler rt clock request =
     (if http_method request = str ''OPTIONS''
      then \<lparr>status = 204, headers = corsHeaders, response_body = No_body\<rparr>
      else if pathname request = str ''/'' \<and> http_method request = str ''GET''
      then \<lparr>status = 200, headers = json_headers,
            response_body = JSON_stringify (JObj
              [(str ''status'', JStr (str ''ok'')),
               (str ''service'', JStr (str ''voice-inbox-server'')),
               (str ''timestamp'', JStr (toISOString (clock 0)))])\<rparr>
      else if pathname request = str ''/convert'' \<and> http_method request = str ''POST''
      then
        (let result = handleConvert rt clock (json_outcome request)
         in \<lparr>status = (if success result then 200 else 400), headers = json_headers,
              response_body = JSON_stringify (result_object result)\<rparr>)
      else \<lparr>status = 404, headers = json_headers,
            response_body = JSON_stringify (JObj
              [(str ''success'', JBool False), (str ''error'', JStr (str ''Not found''))])\<rparr>)"

subsection \<open>The port\<close>

text \<open>
  \<^verbatim>\<open>process.env.PORT || 3000\<close>: an environment variable is a string or unset
  (\<open>None\<close>); the value given to \<^verbatim>\<open>Bun.serve\<close> is that string or the number 3000.
\<close>

datatype port_value = PortString js_string | PortNumber nat

definition PORT :: "js_string option \<Rightarrow> port_value" where
  "PORT env_PORT =
     (case env_PORT of
        None \<Rightarrow> PortNumber 3000
      | Some s \<Rightarrow> if s \<noteq> [] then PortString s else PortNumber 3000)"

section \<open>What the specification says, as definitions\<close>

text \<open>
  The note as the specification lays it out: the frontmatter's delimiter, its seven keys
  in order, the delimiter again, a blank line and the body, every line ended by a
  newline.
\<close>

definition note_lines :: "js_string \<Rightarrow> js_string \<Rightarrow> js_string \<Rightarrow> js_string list" where
  \<open>note_lines created source_value body_text =
     [str ''---'',
      str ''type: transcription'',
      str ''created: '' @ created,
      str ''source: '' @ source_value,
      str ''template_version: 1'',
      str ''areas: []'',
      str ''projects: []'',
      str ''summary: ""'',
      str ''---'',
      [],
      body_text]\<close>

definition unlines :: "js_string list \<Rightarrow> js_string" where
  "unlines ls = concat (map (\<lambda>l. l @ [0x0A]) ls)"

text \<open>The lines of a text: what \<^verbatim>\<open>split('\n')\<close> returns.\<close>

fun split_lines :: "js_string \<Rightarrow> js_string list" where
  "split_lines [] = [[]]"
| "split_lines (c # cs) =
     (if c = 0x0A then [] # split_lines cs
      else (case split_lines cs of [] \<Rightarrow> [[c]] | l # ls \<Rightarrow> (c # l) # ls))"

text \<open>A calendar date written \<^verbatim>\<open>YYYY-MM-DD\<close>: four digits, two digits, two digits.\<close>

definition is_digit :: "16 word \<Rightarrow> bool" where
  "is_digit c \<longleftrightarrow> 0x30 \<le> c \<and> c \<le> 0x39"

fun date_pattern :: "js_string \<Rightarrow> bool" where
  "date_pattern [y1, y2, y3, y4, h1, m1, m2, h2, d1, d2] \<longleftrightarrow>
     is_digit y1 \<and> is_digit y2 \<and> is_digit y3 \<and> is_digit y4 \<and> h1 = 0x2D \<and>
     is_digit m1 \<and> is_digit m2 \<and> h2 = 0x2D \<and> is_digit d1 \<and> is_digit d2"
| "date_pattern _ \<longleftrightarrow> False"

text \<open>
  The time of day written \<^verbatim>\<open>H-MMam\<close> or \<^verbatim>\<open>H-MMpm\<close>: the hour from 1 to 12
  with no leading zero, a hyphen, two digits of minutes, the meridiem in lower case.
\<close>

definition meridiem :: "js_string \<Rightarrow> bool" where
  "meridiem s \<longleftrightarrow> s = str ''am'' \<or> s = str ''pm''"

fun time_pattern :: "js_string \<Rightarrow> bool" where
  "time_pattern [h, hy, m1, m2, a, m] \<longleftrightarrow>
     0x31 \<le> h \<and> h \<le> 0x39 \<and> hy = 0x2D \<and> is_digit m1 \<and> is_digit m2 \<and> meridiem [a, m]"
| "time_pattern [h1, h2, hy, m1, m2, a, m] \<longleftrightarrow>
     h1 = 0x31 \<and> 0x30 \<le> h2 \<and> h2 \<le> 0x32 \<and> hy = 0x2D \<and> is_digit m1 \<and> is_digit m2 \<and>
     meridiem [a, m]"
| "time_pattern _ \<longleftrightarrow> False"

text \<open>The filename pattern: the marker, a space, the date, a space, the time.\<close>

definition filename_pattern :: "js_string \<Rightarrow> bool" where
  "filename_pattern s \<longleftrightarrow>
     take 2 s = emoji \<and> take 1 (drop 2 s) = str '' '' \<and>
     date_pattern (take 10 (drop 3 s)) \<and> take 1 (drop 13 s) = str '' '' \<and>
     time_pattern (drop 14 s)"

text \<open>The date \<open>y\<close>-\<open>m\<close>-\<open>d\<close> written \<^verbatim>\<open>YYYY-MM-DD\<close>, digit by digit.\<close>

definition yyyy_mm_dd :: "nat \<Rightarrow> nat \<Rightarrow> nat \<Rightarrow> js_string" where
  "yyyy_mm_dd y m d =
     [digit (y div 1000), digit (y div 100 mod 10), digit (y div 10 mod 10), digit (y mod 10),
      0x2D, digit (m div 10), digit (m mod 10), 0x2D, digit (d div 10), digit (d mod 10)]"

text \<open>The hour on the twelve-hour clock: 0 and 12 are written 12.\<close>

definition hour12 :: "nat \<Rightarrow> nat" where
  "hour12 h = (if h mod 12 \<noteq> 0 then h mod 12 else 12)"

section \<open>Sample inputs\<close>

text \<open>
  A runtime whose numbers are integers, with sample messages for its two
  \<^verbatim>\<open>TypeError\<close>s, and a clock that stands still during a request.
\<close>

definition int_runtime :: "int runtime" where
  "int_runtime =
     \<lparr>number_truthy = (\<lambda>n. n \<noteq> 0), number_toString = String_of,
      null_read_message = str ''null is not an object'',
      no_primitive_message = str ''No default value''\<rparr>"

definition constant_clock :: "js_date \<Rightarrow> nat \<Rightarrow> js_date" where
  "constant_clock d i = d"

text \<open>
  The instant 2026-01-28T23:30:15.250Z, seen from a server eleven hours ahead of UTC
  (where it is 10:30 on the 29th).
\<close>

definition sample_date :: js_date where
  "sample_date =
     \<lparr>getFullYear = 2026, getMonth = 0, getDate = 29, getHours = 10, getMinutes = 30,
      getUTCFullYear = 2026, getUTCMonth = 0, getUTCDate = 28, getUTCHours = 23,
      getUTCMinutes = 30, getUTCSeconds = 15, getUTCMilliseconds = 250\<rparr>"

text \<open>Midnight (UTC and local) on the first day of the year 10000.\<close>

definition year_10000 :: js_date where
  "year_10000 =
     \<lparr>getFullYear = 10000, getMonth = 0, getDate = 1, getHours = 0, getMinutes = 0,
      getUTCFullYear = 10000, getUTCMonth = 0, getUTCDate = 1, getUTCHours = 0,
      getUTCMinutes = 0, getUTCSeconds = 0, getUTCMilliseconds = 0\<rparr>"

definition post_convert :: "thrown + 'n json \<Rightarrow> 'n request" where
  "post_convert outcome =
     \<lparr>http_method = str ''POST'', pathname = str ''/convert'', json_outcome = outcome\<rparr>"

text \<open>
  Request bodies: a text with surrounding blanks and no source; a plain text for the clock
  of the year 10000; a source that is a number; a source that is an object with an own
  property \<^verbatim>\<open>toString\<close>; a source that is a string of two lines.
\<close>

definition sample_request :: "int json" where
  "sample_request = JObj [(str ''text'', JStr (str ''  hi there  ''))]"

definition year_10000_request :: "int json" where
  "year_10000_request = JObj [(str ''text'', JStr (str ''hello''))]"

definition numeric_source_request :: "int json" where
  "numeric_source_request =
     JObj [(str ''text'', JStr (str ''hello'')), (str ''source'', JNum 42)]"

definition unrenderable_request :: "int json" where
  "unrenderable_request =
     JObj [(str ''text'', JStr (str ''hello'')),
           (str ''source'', JObj [(str ''toString'', JNum 1)])]"

definition newline_source_request :: "int json" where
  "newline_source_request =
     JObj [(str ''text'', JStr (str ''hello'')),
           (str ''source'', JStr (str ''x\<newline>injected: 1''))]"

section \<open>Routing and headers\<close>

lemma method_literals:
  "str ''OPTIONS'' \<noteq> str ''GET''" "str ''OPTIONS'' \<noteq> str ''POST''" "str ''GET'' \<noteq> str ''POST''"
  "str ''/'' \<noteq> str ''/convert''"
  "str ''GET'' \<noteq> str ''OPTIONS''" "str ''POST'' \<noteq> str ''OPTIONS''" "str ''POST'' \<noteq> str ''GET''"
  "str ''/convert'' \<noteq> str ''/''"
  by (simp_all add: str_def)

text \<open>
  Claim C4. Dispatch, in priority order: an \<^verbatim>\<open>OPTIONS\<close> request on any path gets
  204 with no body and only the CORS headers; otherwise \<^verbatim>\<open>GET /\<close> gets the 200
  health response with the status, the service name and the clock's ISO timestamp;
  otherwise \<^verbatim>\<open>POST /convert\<close> runs the convert operation, whose result decides
  between 200 and 400; every other combination gets 404 with the body
  \<^verbatim>\<open>{success:false, error:"Not found"}\<close>.
\<close>

theorem handler_dispatch:
  "(http_method r = str ''OPTIONS'' \<longrightarrow>
      handler rt clock r = \<lparr>status = 204, headers = corsHeaders, response_body = No_body\<rparr>) \<and>
   (http_method r = str ''GET'' \<and> pathname r = str ''/'' \<longrightarrow>
      handler rt clock r =
        \<lparr>status = 200, headers = json_headers,
         response_body = JSON_stringify (JObj
           [(str ''status'', JStr (str ''ok'')),
            (str ''service'', JStr (str ''voice-inbox-server'')),
            (str ''timestamp'', JStr (toISOString (clock 0)))])\<rparr>) \<and>
   (http_method r = str ''POST'' \<and> pathname r = str ''/convert'' \<longrightarrow>
      handler rt clock r =
        \<lparr>status = (if success (handleConvert rt clock (json_outcome r)) then 200 else 400),
         headers = json_headers,
         response_body = JSON_stringify (result_object (handleConvert rt clock (json_outcome r)))\<rparr>) \<and>
   (http_method r \<noteq> str ''OPTIONS'' \<and>
    \<not> (http_method r = str ''GET'' \<and> pathname r = str ''/'') \<and>
    \<not> (http_method r = str ''POST'' \<and> pathname r = str ''/convert'') \<longrightarrow>
      handler rt clock r =
        \<lparr>status = 404, headers = json_headers,
         response_body = JSON_stringify (JObj
           [(str ''success'', JBool False), (str ''error'', JStr (str ''Not found''))])\<rparr>)"
  by (auto simp: handler_def Let_def method_literals)

text \<open>One request for each of the four branches.\<close>

theorem handler_dispatch_witness:
  "handler int_runtime (constant_clock sample_date)
      \<lparr>http_method = str ''OPTIONS'', pathname = str ''/convert'', json_outcome = Inr JNull\<rparr>
     = \<lparr>status = 204, headers = corsHeaders, response_body = No_body\<rparr> \<and>
   status (handler int_runtime (constant_clock sample_date)
      \<lparr>http_method = str ''GET'', pathname = str ''/'', json_outcome = Inr JNull\<rparr>) = 200 \<and>
   status (handler int_runtime (constant_clock sample_date)
      \<lparr>http_method = str ''POST'', pathname = str ''/convert'', json_outcome = Inr JNull\<rparr>) = 400 \<and>
   status (handler int_runtime (constant_clock sample_date)
      \<lparr>http_method = str ''GET'', pathname = str ''/unknown'', json_outcome = Inr JNull\<rparr>) = 404"
proof -
  let ?h = "handler int_runtime (constant_clock sample_date)"
  let ?o = "\<lparr>http_method = str ''OPTIONS'', pathname = str ''/convert'', json_outcome = Inr JNull\<rparr> :: int request"
  let ?g = "\<lparr>http_method = str ''GET'', pathname = str ''/'', json_outcome = Inr JNull\<rparr> :: int request"
  let ?p = "\<lparr>http_method = str ''POST'', pathname = str ''/convert'', json_outcome = Inr JNull\<rparr> :: int request"
  let ?u = "\<lparr>http_method = str ''GET'', pathname = str ''/unknown'', json_outcome = Inr JNull\<rparr> :: int request"
  have nul: "handleConvert int_runtime (constant_clock sample_date) (Inr JNull)
      = ErrorResponse (str ''null is not an object'')"
    by (simp add: handleConvert_def handleConvert_try_def int_runtime_def)
  have 1: "?h ?o = \<lparr>status = 204, headers = corsHeaders, response_body = No_body\<rparr>"
    using handler_dispatch [of ?o int_runtime "constant_clock sample_date"] by simp
  have 2: "status (?h ?g) = 200"
    using handler_dispatch [of ?g int_runtime "constant_clock sample_date"] by simp
  have 3: "status (?h ?p) = 400"
    using handler_dispatch [of ?p int_runtime "constant_clock sample_date"] nul by simp
  have "str ''/unknown'' \<noteq> str ''/''" by (simp add: str_def)
  then have 4: "status (?h ?u) = 404"
    using handler_dispatch [of ?u int_runtime "constant_clock sample_date"]
    by (simp add: method_literals)
  from 1 2 3 4 show ?thesis by simp
qed

text \<open>
  Claim C7. Every response carries the three CORS headers
  (\<^verbatim>\<open>Access-Control-Allow-Origin: *\<close>,
  \<^verbatim>\<open>Access-Control-Allow-Methods: GET, POST, OPTIONS\<close>,
  \<^verbatim>\<open>Access-Control-Allow-Headers: Content-Type\<close>); the preflight response, the only
  one without a body, has no \<^verbatim>\<open>Content-Type\<close>, and every other response has
  \<^verbatim>\<open>Content-Type: application/json\<close>. The statuses are 204, 200, 400 and 404.
\<close>

theorem cors_headers_on_every_response:
  "map_of (headers (handler rt clock r)) (str ''Access-Control-Allow-Origin'') = Some (str ''*'') \<and>
   map_of (headers (handler rt clock r)) (str ''Access-Control-Allow-Methods'')
     = Some (str ''GET, POST, OPTIONS'') \<and>
   map_of (headers (handler rt clock r)) (str ''Access-Control-Allow-Headers'')
     = Some (str ''Content-Type'') \<and>
   (map_of (headers (handler rt clock r)) (str ''Content-Type'')
      = (if http_method r = str ''OPTIONS'' then None else Some (str ''application/json''))) \<and>
   (response_body (handler rt clock r) = No_body \<longleftrightarrow> http_method r = str ''OPTIONS'') \<and>
   status (handler rt clock r) \<in> {204, 200, 400, 404}"
proof -
  have c: "map_of corsHeaders (str ''Access-Control-Allow-Origin'') = Some (str ''*'')"
    "map_of corsHeaders (str ''Access-Control-Allow-Methods'') = Some (str ''GET, POST, OPTIONS'')"
    "map_of corsHeaders (str ''Access-Control-Allow-Headers'') = Some (str ''Content-Type'')"
    "map_of corsHeaders (str ''Content-Type'') = None"
    by (simp_all add: corsHeaders_def str_def)
  have j: "map_of json_headers (str ''Access-Control-Allow-Origin'') = Some (str ''*'')"
    "map_of json_headers (str ''Access-Control-Allow-Methods'') = Some (str ''GET, POST, OPTIONS'')"
    "map_of json_headers (str ''Access-Control-Allow-Headers'') = Some (str ''Content-Type'')"
    "map_of json_headers (str ''Content-Type'') = Some (str ''application/json'')"
    by (simp_all add: json_headers_def corsHeaders_def str_def)
  have h: "headers (handler rt clock r)
      = (if http_method r = str ''OPTIONS'' then corsHeaders else json_headers)"
    by (simp add: handler_def Let_def)
  have b: "response_body (handler rt clock r) = No_body \<longleftrightarrow> http_method r = str ''OPTIONS''"
    by (simp add: handler_def Let_def)
  have s: "status (handler rt clock r) \<in> {204, 200, 400, 404}"
    by (simp add: handler_def Let_def)
  show ?thesis using c j h b s by simp
qed

text \<open>The preflight and the 404 fallback.\<close>

theorem cors_headers_on_every_response_witness:
  "map_of (headers (handler int_runtime (constant_clock sample_date)
      \<lparr>http_method = str ''OPTIONS'', pathname = str ''/convert'', json_outcome = Inr JNull\<rparr>))
      (str ''Content-Type'') = None \<and>
   map_of (headers (handler int_runtime (constant_clock sample_date)
      \<lparr>http_method = str ''GET'', pathname = str ''/unknown'', json_outcome = Inr JNull\<rparr>))
      (str ''Content-Type'') = Some (str ''application/json'') \<and>
   map_of (headers (handler int_runtime (constant_clock sample_date)
      \<lparr>http_method = str ''GET'', pathname = str ''/unknown'', json_outcome = Inr JNull\<rparr>))
      (str ''Access-Control-Allow-Origin'') = Some (str ''*'')"
  using cors_headers_on_every_response [of int_runtime "constant_clock sample_date"
      "\<lparr>http_method = str ''OPTIONS'', pathname = str ''/convert'', json_outcome = Inr JNull\<rparr>"]
    cors_headers_on_every_response [of int_runtime "constant_clock sample_date"
      "\<lparr>http_method = str ''GET'', pathname = str ''/unknown'', json_outcome = Inr JNull\<rparr>"]
  by (simp add: method_literals)

section \<open>The port\<close>

text \<open>
  Claim C8, as the specification states it, fails: a value of the variable that is not
  a number is not replaced by 3000 but handed to the server as it is.
\<close>

theorem PORT_invalid_counterexample:
  "PORT (Some (str ''abc'')) = PortString (str ''abc'') \<and>
   PORT (Some (str ''abc'')) \<noteq> PortNumber 3000"
  by (simp add: PORT_def str_def)

text \<open>
  Claim C8, amended. The port is 3000 exactly when the variable \<^verbatim>\<open>PORT\<close> is unset
  or empty; every other value, numeric or not, is passed on unchanged.
\<close>

theorem PORT_default:
  "(PORT env = PortNumber 3000 \<longleftrightarrow> env = None \<or> env = Some []) \<and>
   (\<forall>s. env = Some s \<and> s \<noteq> [] \<longrightarrow> PORT env = PortString s)"
  by (auto simp: PORT_def split: option.splits)

text \<open>Unset, empty and set.\<close>

theorem PORT_default_witness:
  "PORT None = PortNumber 3000 \<and> PORT (Some []) = PortNumber 3000 \<and>
   PORT (Some (str ''8080'')) = PortString (str ''8080'')"
  using PORT_default [of None] PORT_default [of "Some []"] PORT_default [of "Some (str ''8080'')"]
  by (simp add: str_def)

section \<open>Digits, padding and dates\<close>

lemma small_nat_cases:
  "k < 10 \<Longrightarrow> k \<in> {0, 1, 2, 3, 4, 5, 6, 7, 8, 9::nat}"
  by auto

lemma is_digit_digit: "k < 10 \<Longrightarrow> is_digit (digit k)"
  using small_nat_cases [of k] by (auto simp: digit_def is_digit_def)

lemma digit_nonzero: "1 \<le> k \<Longrightarrow> k < 10 \<Longrightarrow> 0x31 \<le> digit k \<and> digit k \<le> 0x39"
  using small_nat_cases [of k] by (auto simp: digit_def)

lemma digit_upto_two: "k < 3 \<Longrightarrow> 0x30 \<le> digit k \<and> digit k \<le> 0x32"
proof -
  assume "k < 3"
  then have "k \<in> {0, 1, 2}" by auto
  then show ?thesis by (auto simp: digit_def)
qed

lemma digit_one: "digit (Suc 0) = 0x31"
  by (simp add: digit_def)

lemma decimal_1: "n < 10 \<Longrightarrow> decimal n = [digit n]"
  by (simp add: decimal.simps)

lemma decimal_2: "10 \<le> n \<Longrightarrow> n < 100 \<Longrightarrow> decimal n = [digit (n div 10), digit (n mod 10)]"
  by (subst decimal.simps) (simp add: decimal_1)

lemma decimal_3:
  "100 \<le> n \<Longrightarrow> n < 1000 \<Longrightarrow>
   decimal n = [digit (n div 100), digit (n div 10 mod 10), digit (n mod 10)]"
  by (subst decimal.simps) (simp add: decimal_2 div_mult2_eq [symmetric])

lemma decimal_4:
  "1000 \<le> n \<Longrightarrow> n < 10000 \<Longrightarrow>
   decimal n = [digit (n div 1000), digit (n div 100 mod 10), digit (n div 10 mod 10),
                digit (n mod 10)]"
  by (subst decimal.simps) (simp add: decimal_3 div_mult2_eq [symmetric])

lemma padStart_zero: "padStart n (str ''0'') s = replicate (n - length s) 0x30 @ s"
proof -
  have "concat (replicate k [x]) = replicate k x" for k and x :: "16 word"
    by (induction k) simp_all
  then show ?thesis by (simp add: padStart_def str_def Let_def)
qed

lemma two_digits:
  "n < 100 \<Longrightarrow> padStart 2 (str ''0'') (decimal n) = [digit (n div 10), digit (n mod 10)]"
proof (cases "n < 10")
  case True
  then show ?thesis by (simp add: padStart_zero decimal_1 digit_def)
next
  case False
  assume "n < 100"
  with False show ?thesis by (simp add: padStart_zero decimal_2)
qed

lemma String_of_nat: "String_of (int n) = decimal n"
  by (simp add: String_of_def)

lemma decimal_all_digits: "c \<in> set (decimal n) \<Longrightarrow> is_digit c"
proof (induction n rule: decimal.induct)
  case (1 n)
  show ?case
  proof (cases "n < 10")
    case True
    with "1.prems" show ?thesis by (simp add: decimal_1 is_digit_digit)
  next
    case False
    with "1.prems" have "c \<in> set (decimal (n div 10)) \<or> c = digit (n mod 10)"
      by (subst (asm) decimal.simps) auto
    with False "1.IH" show ?thesis by (auto simp: is_digit_digit)
  qed
qed

lemma padded_all_digits: "c \<in> set (padStart k (str ''0'') (decimal n)) \<Longrightarrow> is_digit c"
proof -
  assume "c \<in> set (padStart k (str ''0'') (decimal n))"
  then have "c = 0x30 \<or> c \<in> set (decimal n)"
    by (auto simp: padStart_zero)
  then show ?thesis
  proof
    assume "c = 0x30"
    then show ?thesis by (simp add: is_digit_def)
  next
    assume "c \<in> set (decimal n)"
    then show ?thesis by (rule decimal_all_digits)
  qed
qed


text \<open>The date part of an ISO timestamp has no letter T, so the split returns all of it.\<close>

lemma letter_T_not_in_iso_date: "c \<in> set (iso_date d) \<Longrightarrow> c \<noteq> 0x54"
proof -
  assume c: "c \<in> set (iso_date d)"
  have sign: "str ''-'' = [0x2D]" "str ''+'' = [0x2B]"
    by (simp_all add: str_def)
  have year: "c \<in> set (iso_year y) \<Longrightarrow> is_digit c \<or> c = 0x2D \<or> c = 0x2B" for y
    unfolding iso_year_def sign by (auto dest: padded_all_digits split: if_splits)
  from c have "is_digit c \<or> c = 0x2D \<or> c = 0x2B"
    unfolding iso_date_def sign by (auto dest: padded_all_digits year)
  then show ?thesis by (auto simp: is_digit_def)
qed

lemma split_first_toISOString: "split_first 0x54 (toISOString d) = iso_date d"
  by (simp add: split_first_def toISOString_def letter_T_not_in_iso_date str_def)

text \<open>The timestamp of a year with four digits, unit by unit.\<close>

lemma generateTimestamp_four_digit_year:
  assumes "date_fields_ok now" and "1000 \<le> getFullYear now" and "getFullYear now \<le> 9999"
  shows "generateTimestamp now =
     [digit (nat (getFullYear now) div 1000), digit (nat (getFullYear now) div 100 mod 10),
      digit (nat (getFullYear now) div 10 mod 10), digit (nat (getFullYear now) mod 10), 0x2D,
      digit ((getMonth now + 1) div 10), digit ((getMonth now + 1) mod 10), 0x2D,
      digit (getDate now div 10), digit (getDate now mod 10), 0x20] @
     decimal (hour12 (getHours now)) @
     [0x2D, digit (getMinutes now div 10), digit (getMinutes now mod 10)] @
     (if getHours now \<ge> 12 then str ''pm'' else str ''am'')"
proof -
  from assms(1) have m: "getMonth now + 1 < 100" and d: "getDate now < 100"
    and mi: "getMinutes now < 100"
    by (simp_all add: date_fields_ok_def)
  from assms(2,3) have y: "String_of (getFullYear now) =
     [digit (nat (getFullYear now) div 1000), digit (nat (getFullYear now) div 100 mod 10),
      digit (nat (getFullYear now) div 10 mod 10), digit (nat (getFullYear now) mod 10)]"
    by (simp add: String_of_def decimal_4)
  show ?thesis
    unfolding generateTimestamp_def Let_def String_of_nat y two_digits [OF m] two_digits [OF d]
      two_digits [OF mi] hour12_def
    by (simp add: str_def)
qed

lemma filename_pattern_four_digit_year:
  assumes "date_fields_ok now" and "1000 \<le> getFullYear now" and "getFullYear now \<le> 9999"
  shows "filename_pattern (generateFilename now)"
proof -
  let ?y = "nat (getFullYear now)"
  let ?h = "hour12 (getHours now)"
  from assms(1) have m: "getMonth now + 1 < 100" and d: "getDate now < 100"
    and mi: "getMinutes now < 60"
    by (simp_all add: date_fields_ok_def)
  from assms(2,3) have y: "?y < 10000" by simp
  have dig: "is_digit (digit (?y div 1000))" "is_digit (digit (?y div 100 mod 10))"
    "is_digit (digit (?y div 10 mod 10))" "is_digit (digit (?y mod 10))"
    "is_digit (digit ((getMonth now + 1) div 10))" "is_digit (digit ((getMonth now + 1) mod 10))"
    "is_digit (digit (getDate now div 10))" "is_digit (digit (getDate now mod 10))"
    "is_digit (digit (getMinutes now div 10))" "is_digit (digit (getMinutes now mod 10))"
    using y m d mi by (simp_all add: is_digit_digit)
  have mer: "meridiem (if getHours now \<ge> 12 then str ''pm'' else str ''am'')"
    by (simp add: meridiem_def)
  have h: "1 \<le> ?h" "?h \<le> 12"
    by (simp_all add: hour12_def)
  show ?thesis
  proof (cases "?h < 10")
    case True
    with h have "0x31 \<le> digit ?h \<and> digit ?h \<le> 0x39" by (simp add: digit_nonzero)
    with True dig mer show ?thesis
      unfolding generateFilename_def generateTimestamp_four_digit_year [OF assms]
      by (simp add: filename_pattern_def emoji_def decimal_1 str_def meridiem_def)
  next
    case False
    with h have r: "10 \<le> ?h" "?h < 100" "?h div 10 = 1" "?h mod 10 < 3" by presburger+
    from r(4) have "0x30 \<le> digit (?h mod 10) \<and> digit (?h mod 10) \<le> 0x32"
      by (rule digit_upto_two)
    with r dig mer show ?thesis
      unfolding generateFilename_def generateTimestamp_four_digit_year [OF assms]
      by (simp add: filename_pattern_def emoji_def decimal_2 digit_one str_def meridiem_def)
  qed
qed


section \<open>The convert operation, case by case\<close>

lemma handleConvert_thrown:
  "handleConvert_try rt clock outcome = Inl e \<Longrightarrow>
   handleConvert rt clock outcome = ErrorResponse (catch_message e)"
  by (simp add: handleConvert_def)

lemma handleConvert_try_parse_failure:
  "handleConvert_try rt clock (Inl e) = Inl e"
  by (simp add: handleConvert_try_def)

lemma handleConvert_try_null:
  "handleConvert_try rt clock (Inr JNull) = Inl (ErrorInstance (null_read_message rt))"
  by (simp add: handleConvert_try_def)

lemma handleConvert_missing:
  assumes "read_property rt body (str ''text'') = Inr v"
    and "\<not> typeof_string v \<or> v = Some (JStr [])"
  shows \<open>handleConvert rt clock (Inr body) = ErrorResponse (str ''Missing or invalid "text" field'')\<close>
proof -
  from assms(2) have "\<not> truthy rt v \<or> \<not> typeof_string v" by auto
  with assms(1) show ?thesis
    by (simp add: handleConvert_def handleConvert_try_def)
qed

lemma handleConvert_empty:
  assumes "read_property rt body (str ''text'') = Inr (Some (JStr t))"
    and "t \<noteq> []" and "trim t = []"
  shows "handleConvert rt clock (Inr body) = ErrorResponse (str ''Text cannot be empty'')"
  using assms by (simp add: handleConvert_def handleConvert_try_def)

lemma generateNoteContent_layout:
  "ToString rt source = Inr s \<Longrightarrow>
   generateNoteContent rt now txt source = Inr (unlines (note_lines (iso_date now) s txt))"
  by (simp add: generateNoteContent_def generateFrontmatter_def split_first_toISOString
      unlines_def note_lines_def str_def)

lemma generateNoteContent_throws:
  "ToString rt source = Inl e \<Longrightarrow> generateNoteContent rt now txt source = Inl e"
  by (simp add: generateNoteContent_def generateFrontmatter_def)

lemma handleConvert_try_accepted:
  assumes "read_property rt b (str ''text'') = Inr (Some (JStr t))" and "trim t \<noteq> []"
    and "read_property rt b (str ''source'') = Inr fld"
  shows "handleConvert_try rt clock (Inr b) =
     (case ToString rt (or_else rt fld (JStr (str ''superwhisper''))) of
        Inl e \<Rightarrow> Inl e
      | Inr s \<Rightarrow> Inr (ConvertResponse (unlines (note_lines (iso_date (clock 0)) s (trim t)))
                        (generateFilename (clock 1))))"
proof -
  from assms(2) have "t \<noteq> []" by (auto simp: trim_def)
  with assms show ?thesis
    by (cases "ToString rt (or_else rt fld (JStr (str ''superwhisper'')))")
      (simp_all add: handleConvert_try_def generateNoteContent_layout generateNoteContent_throws)
qed

lemma read_property_Some_object:
  "read_property rt b k = Inr (Some v) \<Longrightarrow> \<exists>kvs. b = JObj kvs"
  by (cases b) simp_all

lemma handleConvert_success_elim:
  assumes "handleConvert rt clock outcome = ConvertResponse nc fn"
  shows "\<exists>b t fld s. outcome = Inr b \<and>
     read_property rt b (str ''text'') = Inr (Some (JStr t)) \<and> trim t \<noteq> [] \<and>
     read_property rt b (str ''source'') = Inr fld \<and>
     ToString rt (or_else rt fld (JStr (str ''superwhisper''))) = Inr s \<and>
     nc = unlines (note_lines (iso_date (clock 0)) s (trim t)) \<and>
     fn = generateFilename (clock 1)"
proof (cases outcome)
  case (Inl e)
  with assms show ?thesis by (simp add: handleConvert_def handleConvert_try_def)
next
  case (Inr b)
  show ?thesis
  proof (cases "read_property rt b (str ''text'')")
    case (Inl e)
    with Inr assms show ?thesis by (simp add: handleConvert_def handleConvert_try_def)
  next
    case rd: (Inr v)
    show ?thesis
    proof (cases "\<not> truthy rt v \<or> \<not> typeof_string v")
      case True
      with Inr rd assms show ?thesis
        by (auto simp: handleConvert_def handleConvert_try_def)
    next
      case False
      then obtain t where v: "v = Some (JStr t)"
        by (cases v rule: typeof_string.cases) auto
      show ?thesis
      proof (cases "trim t = []")
        case True
        with False Inr rd v assms show ?thesis
          by (simp add: handleConvert_def handleConvert_try_def)
      next
        case nonempty: False
        from rd v obtain kvs where "b = JObj kvs"
          using read_property_Some_object by blast
        then obtain fld where fld: "read_property rt b (str ''source'') = Inr fld" by simp
        from rd v have t: "read_property rt b (str ''text'') = Inr (Some (JStr t))" by simp
        note eq = handleConvert_try_accepted [OF t nonempty fld, of clock]
        show ?thesis
        proof (cases "ToString rt (or_else rt fld (JStr (str ''superwhisper'')))")
          case (Inl e)
          with eq Inr assms show ?thesis by (simp add: handleConvert_def)
        next
          case (Inr s)
          with eq \<open>outcome = Inr b\<close> assms t nonempty fld show ?thesis
            by (auto simp: handleConvert_def)
        qed
      qed
    qed
  qed
qed

lemma post_convert_response:
  assumes "http_method r = str ''POST''" and "pathname r = str ''/convert''"
  shows "handler rt clock r =
     \<lparr>status = (if success (handleConvert rt clock (json_outcome r)) then 200 else 400),
      headers = json_headers,
      response_body = JSON_stringify (result_object (handleConvert rt clock (json_outcome r)))\<rparr>"
  using assms by (simp add: handler_def Let_def method_literals)

lemma unlines_note_lines_inject:
  "unlines (note_lines c s t) = unlines (note_lines c s t') \<longleftrightarrow> t = t'"
  by (simp add: unlines_def note_lines_def)


text \<open>The sample request at the sample instant.\<close>

lemma sample_date_ok: "date_fields_ok sample_date"
  by (simp add: date_fields_ok_def sample_date_def)

lemma sample_iso_date: "iso_date sample_date = str ''2026-01-28''"
  by (simp add: iso_date_def iso_year_def sample_date_def padStart_def decimal.simps digit_def
      str_def Let_def)

lemma sample_convert:
  "handleConvert int_runtime (constant_clock sample_date) (Inr sample_request) =
     ConvertResponse
       (unlines (note_lines (str ''2026-01-28'') (str ''superwhisper'') (str ''hi there'')))
       (emoji @ str '' 2026-01-29 10-30am'')"
  by (simp add: handleConvert_def handleConvert_try_def sample_request_def int_runtime_def
      constant_clock_def sample_date_def generateNoteContent_def generateFrontmatter_def
      generateFilename_def generateTimestamp_def toISOString_def iso_date_def iso_time_def
      iso_year_def split_first_def padStart_def String_of_def decimal.simps digit_def
      trim_def is_white_space_def unlines_def note_lines_def emoji_def str_def Let_def)


section \<open>Lines and calendar dates\<close>

lemma split_lines_line:
  "0x0A \<notin> set l \<Longrightarrow> split_lines (l @ 0x0A # rest) = l # split_lines rest"
  by (induction l) auto

lemma split_lines_unlines_Cons:
  "0x0A \<notin> set l \<Longrightarrow> split_lines (unlines (l # ls)) = l # split_lines (unlines ls)"
  using split_lines_line [of l "unlines ls"] by (simp add: unlines_def)

lemma unlines_single: "unlines [l] = l @ [0x0A]"
  by (simp add: unlines_def)

lemma note_lines_split:
  assumes "0x0A \<notin> set created" and "0x0A \<notin> set source_value"
  shows \<open>split_lines (unlines (note_lines created source_value body_text)) =
     [str ''---'',
      str ''type: transcription'',
      str ''created: '' @ created,
      str ''source: '' @ source_value,
      str ''template_version: 1'',
      str ''areas: []'',
      str ''projects: []'',
      str ''summary: ""'',
      str ''---'',
      []] @ split_lines (body_text @ [0x0A])\<close>
proof -
  have lits: "0x0A \<notin> set (str ''---'')" "0x0A \<notin> set (str ''type: transcription'')"
    "0x0A \<notin> set (str ''created: '')" "0x0A \<notin> set (str ''source: '')"
    "0x0A \<notin> set (str ''template_version: 1'')" "0x0A \<notin> set (str ''areas: []'')"
    "0x0A \<notin> set (str ''projects: []'')" \<open>0x0A \<notin> set (str ''summary: ""'')\<close>
    by (simp_all add: str_def)
  from assms lits show ?thesis
    unfolding note_lines_def
    by (simp add: split_lines_unlines_Cons unlines_single del: split_lines.simps)
qed


text \<open>Within the years of four digits, the ISO date and the filename's date, digit by digit.\<close>

lemma iso_date_yyyy_mm_dd:
  assumes "date_fields_ok d" and "0 \<le> getUTCFullYear d" and "getUTCFullYear d \<le> 9999"
  shows "iso_date d = yyyy_mm_dd (nat (getUTCFullYear d)) (getUTCMonth d + 1) (getUTCDate d)"
proof -
  let ?y = "nat (getUTCFullYear d)"
  from assms(1) have m: "getUTCMonth d + 1 < 100" and dd: "getUTCDate d < 100"
    by (simp_all add: date_fields_ok_def)
  from assms(2,3) have y: "?y < 10000" by simp
  have rep: "replicate 3 x = [x, x, x]" "replicate 2 x = [x, x]" for x :: "16 word"
    by (simp_all add: numeral_3_eq_3 numeral_2_eq_2)
  have year: "padStart 4 (str ''0'') (decimal ?y) =
      [digit (?y div 1000), digit (?y div 100 mod 10), digit (?y div 10 mod 10), digit (?y mod 10)]"
  proof -
    consider "?y < 10" | "10 \<le> ?y" "?y < 100" | "100 \<le> ?y" "?y < 1000" | "1000 \<le> ?y"
      by linarith
    then show ?thesis
    proof cases
      case 1
      then show ?thesis by (simp add: padStart_zero decimal_1 digit_def rep)
    next
      case 2
      then show ?thesis by (simp add: padStart_zero decimal_2 digit_def rep)
    next
      case 3
      then show ?thesis by (simp add: padStart_zero decimal_3 digit_def rep)
    next
      case 4
      with y show ?thesis by (simp add: padStart_zero decimal_4)
    qed
  qed
  from assms(2,3) have "iso_year (getUTCFullYear d) = padStart 4 (str ''0'') (decimal ?y)"
    by (simp add: iso_year_def)
  then show ?thesis
    unfolding iso_date_def year two_digits [OF m] two_digits [OF dd]
    by (simp add: str_def yyyy_mm_dd_def)
qed

lemma date_pattern_yyyy_mm_dd:
  "y < 10000 \<Longrightarrow> m < 100 \<Longrightarrow> d < 100 \<Longrightarrow> date_pattern (yyyy_mm_dd y m d)"
  by (simp add: yyyy_mm_dd_def is_digit_digit)

lemma no_newline_in_yyyy_mm_dd:
  "y < 10000 \<Longrightarrow> m < 100 \<Longrightarrow> d < 100 \<Longrightarrow> 0x0A \<notin> set (yyyy_mm_dd y m d)"
proof -
  assume "y < 10000" "m < 100" "d < 100"
  then have "is_digit (digit (y div 1000))" "is_digit (digit (y div 100 mod 10))"
    "is_digit (digit (y div 10 mod 10))" "is_digit (digit (y mod 10))"
    "is_digit (digit (m div 10))" "is_digit (digit (m mod 10))"
    "is_digit (digit (d div 10))" "is_digit (digit (d mod 10))"
    by (simp_all add: is_digit_digit)
  then show ?thesis
    by (auto simp: yyyy_mm_dd_def is_digit_def)
qed

lemma generateFilename_four_digit_year:
  assumes "date_fields_ok now" and "1000 \<le> getFullYear now" and "getFullYear now \<le> 9999"
  shows "generateFilename now =
     emoji @ str '' '' @
     yyyy_mm_dd (nat (getFullYear now)) (getMonth now + 1) (getDate now) @ str '' '' @
     decimal (hour12 (getHours now)) @
     [0x2D, digit (getMinutes now div 10), digit (getMinutes now mod 10)] @
     (if getHours now \<ge> 12 then str ''pm'' else str ''am'')"
  unfolding generateFilename_def generateTimestamp_four_digit_year [OF assms]
  by (simp add: yyyy_mm_dd_def str_def)

lemma filename_date_part:
  assumes "date_fields_ok now" and "1000 \<le> getFullYear now" and "getFullYear now \<le> 9999"
  shows "take 10 (drop 3 (generateFilename now)) =
     yyyy_mm_dd (nat (getFullYear now)) (getMonth now + 1) (getDate now)"
  unfolding generateFilename_four_digit_year [OF assms]
  by (simp add: emoji_def str_def yyyy_mm_dd_def)


text \<open>Dates written alike are the same date.\<close>

lemma digit_inject: "a < 10 \<Longrightarrow> b < 10 \<Longrightarrow> digit a = digit b \<Longrightarrow> a = b"
proof -
  assume a: "a < 10" and b: "b < 10" and e: "digit a = digit b"
  from e have "take_bit 16 a = take_bit 16 b"
    by (simp add: digit_def word_of_nat_eq_iff)
  moreover from a have "take_bit 16 a = a"
    by (simp add: take_bit_nat_eq_self_iff)
  moreover from b have "take_bit 16 b = b"
    by (simp add: take_bit_nat_eq_self_iff)
  ultimately show ?thesis by simp
qed

lemma div_mod_10_eq: "(a::nat) div 10 = b div 10 \<Longrightarrow> a mod 10 = b mod 10 \<Longrightarrow> a = b"
  by (metis div_mult_mod_eq)

lemma four_digits_eq:
  assumes "(y::nat) div 1000 = y' div 1000" and "y div 100 mod 10 = y' div 100 mod 10"
    and "y div 10 mod 10 = y' div 10 mod 10" and "y mod 10 = y' mod 10"
  shows "y = y'"
proof -
  have "y div 100 div 10 = y' div 100 div 10"
    using assms(1) by (simp add: div_mult2_eq [symmetric])
  then have h: "y div 100 = y' div 100" using assms(2) by (rule div_mod_10_eq)
  have "y div 10 div 10 = y' div 10 div 10"
    using h by (simp add: div_mult2_eq [symmetric])
  then have "y div 10 = y' div 10" using assms(3) by (rule div_mod_10_eq)
  then show ?thesis using assms(4) by (rule div_mod_10_eq)
qed

lemma yyyy_mm_dd_inject:
  assumes "y < 10000" and "y' < 10000" and "m < 100" and "m' < 100" and "d < 100" and "d' < 100"
    and "yyyy_mm_dd y m d = yyyy_mm_dd y' m' d'"
  shows "y = y' \<and> m = m' \<and> d = d'"
proof -
  from assms(7) have e:
    "digit (y div 1000) = digit (y' div 1000)" "digit (y div 100 mod 10) = digit (y' div 100 mod 10)"
    "digit (y div 10 mod 10) = digit (y' div 10 mod 10)" "digit (y mod 10) = digit (y' mod 10)"
    "digit (m div 10) = digit (m' div 10)" "digit (m mod 10) = digit (m' mod 10)"
    "digit (d div 10) = digit (d' div 10)" "digit (d mod 10) = digit (d' mod 10)"
    by (simp_all add: yyyy_mm_dd_def)
  have b: "y div 1000 < 10" "y' div 1000 < 10" "m div 10 < 10" "m' div 10 < 10"
    "d div 10 < 10" "d' div 10 < 10"
    using assms(1-6) by simp_all
  have r: "k mod 10 < 10" for k :: nat by simp
  have "y = y'"
    by (rule four_digits_eq)
      (rule digit_inject [OF b(1) b(2) e(1)], rule digit_inject [OF r r e(2)],
       rule digit_inject [OF r r e(3)], rule digit_inject [OF r r e(4)])
  moreover have "m = m'"
    by (rule div_mod_10_eq) (rule digit_inject [OF b(3) b(4) e(5)], rule digit_inject [OF r r e(6)])
  moreover have "d = d'"
    by (rule div_mod_10_eq) (rule digit_inject [OF b(5) b(6) e(7)], rule digit_inject [OF r r e(8)])
  ultimately show ?thesis by simp
qed

lemma sample_created: "split_first 0x54 (toISOString sample_date) = str ''2026-01-28''"
  by (simp add: split_first_toISOString sample_iso_date)


section \<open>Validation\<close>

text \<open>
  Claim C1, as the specification states it, fails at the text \<^verbatim>\<open>""\<close>: it trims to
  the empty string, but the first check (\<^verbatim>\<open>!body.text\<close>) already rejects it, with
  the message about the \<^verbatim>\<open>text\<close> field, which does not mention \<^verbatim>\<open>empty\<close>.
\<close>

theorem empty_string_counterexample:
  \<open>trim [] = [] \<and>
   handler int_runtime (constant_clock sample_date)
       (post_convert (Inr (JObj [(str ''text'', JStr [])]))) =
     \<lparr>status = 400, headers = json_headers,
      response_body = JSON_stringify (JObj
        [(str ''success'', JBool False),
         (str ''error'', JStr (str ''Missing or invalid "text" field''))])\<rparr> \<and>
   \<not> sublist (str ''empty'') (str ''Missing or invalid "text" field'')\<close>
proof -
  have \<open>handleConvert int_runtime (constant_clock sample_date)
      (Inr (JObj [(str ''text'', JStr [])])) = ErrorResponse (str ''Missing or invalid "text" field'')\<close>
    by (simp add: handleConvert_def handleConvert_try_def)
  moreover have \<open>\<not> sublist (str ''empty'') (str ''Missing or invalid "text" field'')\<close>
    by (simp add: str_def sublist_Cons_right)
  ultimately show ?thesis
    by (simp add: handler_def post_convert_def Let_def method_literals trim_def)
qed

text \<open>
  Claim C1, amended. For a \<^verbatim>\<open>POST /convert\<close> whose body parsed as JSON: when the
  field \<^verbatim>\<open>text\<close> is absent, not a string or the empty string, the response is 400
  with the error \<^verbatim>\<open>Missing or invalid "text" field\<close>, which contains \<^verbatim>\<open>text\<close>;
  otherwise, when the non-empty text trims to the empty string, the response is 400 with
  the error \<^verbatim>\<open>Text cannot be empty\<close>, which contains \<^verbatim>\<open>empty\<close>. The first check
  wins. The body \<^verbatim>\<open>null\<close> has no fields to read: the response is 400 with the message
  of the runtime's \<^verbatim>\<open>TypeError\<close>.
\<close>

theorem text_validation:
  assumes "http_method r = str ''POST''" and "pathname r = str ''/convert''"
    and "json_outcome r = Inr b"
  shows \<open>(b = JNull \<longrightarrow>
            handler rt clock r =
              \<lparr>status = 400, headers = json_headers,
               response_body = JSON_stringify (JObj
                 [(str ''success'', JBool False),
                  (str ''error'', JStr (null_read_message rt))])\<rparr>) \<and>
         (\<forall>v. read_property rt b (str ''text'') = Inr v \<and>
              (\<not> typeof_string v \<or> v = Some (JStr [])) \<longrightarrow>
            handler rt clock r =
              \<lparr>status = 400, headers = json_headers,
               response_body = JSON_stringify (JObj
                 [(str ''success'', JBool False),
                  (str ''error'', JStr (str ''Missing or invalid "text" field''))])\<rparr>) \<and>
         sublist (str ''text'') (str ''Missing or invalid "text" field'') \<and>
         (\<forall>t. read_property rt b (str ''text'') = Inr (Some (JStr t)) \<and>
              t \<noteq> [] \<and> trim t = [] \<longrightarrow>
            handler rt clock r =
              \<lparr>status = 400, headers = json_headers,
               response_body = JSON_stringify (JObj
                 [(str ''success'', JBool False),
                  (str ''error'', JStr (str ''Text cannot be empty''))])\<rparr>) \<and>
         sublist (str ''empty'') (str ''Text cannot be empty'')\<close>
proof -
  note h = post_convert_response [OF assms(1,2), of rt clock]
  have nul: "b = JNull \<longrightarrow> handleConvert rt clock (json_outcome r)
      = ErrorResponse (null_read_message rt)"
    using assms(3) by (simp add: handleConvert_thrown handleConvert_try_null)
  have missing: \<open>\<forall>v. read_property rt b (str ''text'') = Inr v \<and>
      (\<not> typeof_string v \<or> v = Some (JStr [])) \<longrightarrow>
      handleConvert rt clock (json_outcome r) = ErrorResponse (str ''Missing or invalid "text" field'')\<close>
    using assms(3) handleConvert_missing by metis
  have empty: "\<forall>t. read_property rt b (str ''text'') = Inr (Some (JStr t)) \<and>
      t \<noteq> [] \<and> trim t = [] \<longrightarrow>
      handleConvert rt clock (json_outcome r) = ErrorResponse (str ''Text cannot be empty'')"
    using assms(3) handleConvert_empty by metis
  have s1: \<open>sublist (str ''text'') (str ''Missing or invalid "text" field'')\<close>
    by (simp add: str_def sublist_Cons_right)
  have s2: "sublist (str ''empty'') (str ''Text cannot be empty'')"
    by (simp add: str_def sublist_Cons_right)
  from nul missing empty s1 s2 show ?thesis
    by (simp add: h)
qed

text \<open>No text, a number as text, three spaces, and a tab with a newline.\<close>

theorem text_validation_witness:
  \<open>handler int_runtime (constant_clock sample_date) (post_convert (Inr (JObj []))) =
     \<lparr>status = 400, headers = json_headers,
      response_body = JSON_stringify (JObj
        [(str ''success'', JBool False),
         (str ''error'', JStr (str ''Missing or invalid "text" field''))])\<rparr> \<and>
   handler int_runtime (constant_clock sample_date)
       (post_convert (Inr (JObj [(str ''text'', JNum 7)]))) =
     \<lparr>status = 400, headers = json_headers,
      response_body = JSON_stringify (JObj
        [(str ''success'', JBool False),
         (str ''error'', JStr (str ''Missing or invalid "text" field''))])\<rparr> \<and>
   handler int_runtime (constant_clock sample_date)
       (post_convert (Inr (JObj [(str ''text'', JStr (str ''   ''))]))) =
     \<lparr>status = 400, headers = json_headers,
      response_body = JSON_stringify (JObj
        [(str ''success'', JBool False),
         (str ''error'', JStr (str ''Text cannot be empty''))])\<rparr> \<and>
   handler int_runtime (constant_clock sample_date)
       (post_convert (Inr (JObj [(str ''text'', JStr [0x09, 0x0A])]))) =
     \<lparr>status = 400, headers = json_headers,
      response_body = JSON_stringify (JObj
        [(str ''success'', JBool False),
         (str ''error'', JStr (str ''Text cannot be empty''))])\<rparr>\<close>
proof -
  let ?h = "handler int_runtime (constant_clock sample_date)"
  have p: "http_method (post_convert x) = str ''POST''" "pathname (post_convert x) = str ''/convert''"
    "json_outcome (post_convert x) = x" for x :: "thrown + int json"
    by (simp_all add: post_convert_def)
  have ws: "trim (str ''   '') = []" "trim [0x09, 0x0A] = []" "str ''   '' \<noteq> []"
    by (simp_all add: trim_def is_white_space_def str_def)
  show ?thesis
    using text_validation [OF p, of "JObj []" int_runtime "constant_clock sample_date"]
      text_validation [OF p, of "JObj [(str ''text'', JNum 7)]" int_runtime "constant_clock sample_date"]
      text_validation [OF p, of "JObj [(str ''text'', JStr (str ''   ''))]" int_runtime
        "constant_clock sample_date"]
      text_validation [OF p, of "JObj [(str ''text'', JStr [0x09, 0x0A])]" int_runtime
        "constant_clock sample_date"]
      ws
    by simp
qed

section \<open>Responses of the convert endpoint\<close>

text \<open>
  Claim C5. Every \<^verbatim>\<open>POST /convert\<close> is answered with one of two shapes: status 200
  with \<^verbatim>\<open>{success:true, noteContent, filename}\<close>, or status 400 with
  \<^verbatim>\<open>{success:false, error}\<close>. Whatever is thrown while handling (by the JSON parser
  on a malformed body, or later) is caught and becomes the 400 failure with the thrown
  error's message; a body that does not parse is such a throw.
\<close>

theorem convert_response_shapes:
  assumes "http_method r = str ''POST''" and "pathname r = str ''/convert''"
  shows "((\<exists>nc fn. status (handler rt clock r) = 200 \<and>
            response_body (handler rt clock r) = JSON_stringify (JObj
              [(str ''success'', JBool True), (str ''noteContent'', JStr nc),
               (str ''filename'', JStr fn)])) \<or>
          (\<exists>e. status (handler rt clock r) = 400 \<and>
            response_body (handler rt clock r) = JSON_stringify (JObj
              [(str ''success'', JBool False), (str ''error'', JStr e)]))) \<and>
         (\<forall>e. handleConvert_try rt clock (json_outcome r) = Inl e \<longrightarrow>
            status (handler rt clock r) = 400 \<and>
            response_body (handler rt clock r) = JSON_stringify (JObj
              [(str ''success'', JBool False), (str ''error'', JStr (catch_message e))])) \<and>
         (\<forall>e. json_outcome r = Inl e \<longrightarrow> handleConvert_try rt clock (json_outcome r) = Inl e)"
proof -
  note h = post_convert_response [OF assms, of rt clock]
  have shapes: "(\<exists>nc fn. status (handler rt clock r) = 200 \<and>
            response_body (handler rt clock r) = JSON_stringify (JObj
              [(str ''success'', JBool True), (str ''noteContent'', JStr nc),
               (str ''filename'', JStr fn)])) \<or>
          (\<exists>e. status (handler rt clock r) = 400 \<and>
            response_body (handler rt clock r) = JSON_stringify (JObj
              [(str ''success'', JBool False), (str ''error'', JStr e)]))"
    by (cases "handleConvert rt clock (json_outcome r)") (simp_all add: h)
  have caught: "\<forall>e. handleConvert_try rt clock (json_outcome r) = Inl e \<longrightarrow>
            status (handler rt clock r) = 400 \<and>
            response_body (handler rt clock r) = JSON_stringify (JObj
              [(str ''success'', JBool False), (str ''error'', JStr (catch_message e))])"
    by (simp add: h handleConvert_thrown)
  have parse: "\<forall>e. json_outcome r = Inl e \<longrightarrow> handleConvert_try rt clock (json_outcome r) = Inl e"
    by (simp add: handleConvert_try_parse_failure)
  from shapes caught parse show ?thesis by blast
qed

text \<open>A body that is not JSON.\<close>

theorem convert_response_shapes_witness:
  "status (handler int_runtime (constant_clock sample_date)
      (post_convert (Inl (ErrorInstance (str ''Unexpected token''))))) = 400 \<and>
   response_body (handler int_runtime (constant_clock sample_date)
      (post_convert (Inl (ErrorInstance (str ''Unexpected token''))))) =
     JSON_stringify (JObj
       [(str ''success'', JBool False), (str ''error'', JStr (str ''Unexpected token''))])"
proof -
  let ?r = "post_convert (Inl (ErrorInstance (str ''Unexpected token''))) :: int request"
  have m: "http_method ?r = str ''POST''" and p: "pathname ?r = str ''/convert''"
    and j: "json_outcome ?r = Inl (ErrorInstance (str ''Unexpected token''))"
    by (simp_all add: post_convert_def)
  from convert_response_shapes [OF m p, of int_runtime "constant_clock sample_date"] j
  show ?thesis by simp
qed

section \<open>The note\<close>

text \<open>
  Claim C2, as stated, fails in two places. In the year 10000 \<^verbatim>\<open>toISOString\<close>
  writes the year with a sign and six digits, so \<^verbatim>\<open>created\<close> is
  \<^verbatim>\<open>+010000-01-01\<close>, not of the shape \<^verbatim>\<open>YYYY-MM-DD\<close>. And a source of two
  lines is interpolated as it is, so the frontmatter gets an eighth line (here
  \<^verbatim>\<open>injected: 1\<close>) between \<^verbatim>\<open>source\<close> and \<^verbatim>\<open>template_version\<close>.
\<close>

theorem note_layout_counterexample:
  \<open>handleConvert int_runtime (constant_clock year_10000) (Inr year_10000_request) =
     ConvertResponse
       (unlines (note_lines (str ''+010000-01-01'') (str ''superwhisper'') (str ''hello'')))
       (emoji @ str '' 10000-01-01 12-00am'') \<and>
   \<not> date_pattern (str ''+010000-01-01'') \<and>
   split_lines (noteContent
       (handleConvert int_runtime (constant_clock sample_date) (Inr newline_source_request))) =
     [str ''---'',
      str ''type: transcription'',
      str ''created: 2026-01-28'',
      str ''source: x'',
      str ''injected: 1'',
      str ''template_version: 1'',
      str ''areas: []'',
      str ''projects: []'',
      str ''summary: ""'',
      str ''---'',
      [],
      str ''hello'',
      []]\<close>
proof -
  have t: "read_property int_runtime year_10000_request (str ''text'') = Inr (Some (JStr (str ''hello'')))"
    and s: "read_property int_runtime year_10000_request (str ''source'') = Inr None"
    and n: "trim (str ''hello'') \<noteq> []" and tr: "trim (str ''hello'') = str ''hello''"
    by (simp_all add: year_10000_request_def str_def trim_def is_white_space_def)
  have f: "generateFilename year_10000 = emoji @ str '' 10000-01-01 12-00am''"
    by (simp add: year_10000_def generateFilename_def generateTimestamp_def String_of_def
        decimal.simps padStart_def str_def digit_def Let_def)
  have i: "iso_date year_10000 = str ''+010000-01-01''"
    by (simp add: iso_date_def iso_year_def year_10000_def padStart_def decimal.simps digit_def
        str_def Let_def)
  have a: "handleConvert int_runtime (constant_clock year_10000) (Inr year_10000_request) =
      ConvertResponse
        (unlines (note_lines (str ''+010000-01-01'') (str ''superwhisper'') (str ''hello'')))
        (emoji @ str '' 10000-01-01 12-00am'')"
    using handleConvert_try_accepted [OF t n s, of "constant_clock year_10000"] f i tr
    by (simp add: handleConvert_def constant_clock_def)
  have p: "\<not> date_pattern (str ''+010000-01-01'')"
    by (simp add: str_def)
  have t2: "read_property int_runtime newline_source_request (str ''text'')
      = Inr (Some (JStr (str ''hello'')))"
    and s2: "read_property int_runtime newline_source_request (str ''source'')
      = Inr (Some (JStr (str ''x\<newline>injected: 1'')))"
    by (simp_all add: newline_source_request_def str_def)
  have "handleConvert int_runtime (constant_clock sample_date) (Inr newline_source_request) =
      ConvertResponse
        (unlines (note_lines (str ''2026-01-28'') (str ''x\<newline>injected: 1'') (str ''hello'')))
        (generateFilename sample_date)"
    using handleConvert_try_accepted [OF t2 n s2, of "constant_clock sample_date"] tr
    by (simp add: handleConvert_def constant_clock_def sample_iso_date str_def)
  then have l: \<open>split_lines (noteContent
       (handleConvert int_runtime (constant_clock sample_date) (Inr newline_source_request))) =
     [str ''---'', str ''type: transcription'', str ''created: 2026-01-28'', str ''source: x'',
      str ''injected: 1'', str ''template_version: 1'', str ''areas: []'', str ''projects: []'',
      str ''summary: ""'', str ''---'', [], str ''hello'', []]\<close>
    by (simp add: unlines_def note_lines_def str_def)
  from a p l show ?thesis by simp
qed

text \<open>
  Claim C2, amended. After a successful convert at an instant whose UTC year is from 0 to
  9999, when the rendering of the source (the request's, or the default) has no line
  feed: \<open>noteContent\<close> consists of the lines \<^verbatim>\<open>---\<close>, the seven keys
  \<^verbatim>\<open>type\<close>, \<^verbatim>\<open>created\<close>, \<^verbatim>\<open>source\<close>, \<^verbatim>\<open>template_version\<close>, \<^verbatim>\<open>areas\<close>,
  \<^verbatim>\<open>projects\<close>, \<^verbatim>\<open>summary\<close> in this order with their values, \<^verbatim>\<open>---\<close> and a
  blank line, followed by the trimmed text and a final newline. \<^verbatim>\<open>created\<close> is the
  UTC date of the clock's reading, written \<^verbatim>\<open>YYYY-MM-DD\<close>. A text that trimming
  changes is not what the note holds.
\<close>

theorem note_content_layout:
  assumes "handleConvert rt clock (Inr b) = ConvertResponse nc fn"
    and "read_property rt b (str ''text'') = Inr (Some (JStr t))"
    and "read_property rt b (str ''source'') = Inr fld"
    and "ToString rt (or_else rt fld (JStr (str ''superwhisper''))) = Inr source_value"
    and "0x0A \<notin> set source_value"
    and "date_fields_ok (clock 0)"
    and "0 \<le> getUTCFullYear (clock 0)" and "getUTCFullYear (clock 0) \<le> 9999"
  shows \<open>split_first 0x54 (toISOString (clock 0)) =
           yyyy_mm_dd (nat (getUTCFullYear (clock 0))) (getUTCMonth (clock 0) + 1)
             (getUTCDate (clock 0)) \<and>
         date_pattern (split_first 0x54 (toISOString (clock 0))) \<and>
         nc = unlines (note_lines (split_first 0x54 (toISOString (clock 0))) source_value (trim t)) \<and>
         split_lines nc =
           [str ''---'',
            str ''type: transcription'',
            str ''created: '' @ split_first 0x54 (toISOString (clock 0)),
            str ''source: '' @ source_value,
            str ''template_version: 1'',
            str ''areas: []'',
            str ''projects: []'',
            str ''summary: ""'',
            str ''---'',
            []] @ split_lines (trim t @ [0x0A]) \<and>
         (t \<noteq> trim t \<longrightarrow>
            nc \<noteq> unlines (note_lines (split_first 0x54 (toISOString (clock 0))) source_value t))\<close>
proof -
  let ?c = "split_first 0x54 (toISOString (clock 0))"
  from assms(6) have m: "getUTCMonth (clock 0) + 1 < 100" and d: "getUTCDate (clock 0) < 100"
    by (simp_all add: date_fields_ok_def)
  from assms(7,8) have y: "nat (getUTCFullYear (clock 0)) < 10000" by simp
  have c: "?c = yyyy_mm_dd (nat (getUTCFullYear (clock 0))) (getUTCMonth (clock 0) + 1)
      (getUTCDate (clock 0))"
    by (simp add: split_first_toISOString iso_date_yyyy_mm_dd [OF assms(6-8)])
  have p: "date_pattern ?c"
    unfolding c using y m d by (rule date_pattern_yyyy_mm_dd)
  have n: "0x0A \<notin> set ?c"
    unfolding c using y m d by (rule no_newline_in_yyyy_mm_dd)
  from handleConvert_success_elim [OF assms(1)] assms(2-4)
  have nc: "nc = unlines (note_lines ?c source_value (trim t))"
    by (auto simp: split_first_toISOString)
  have l: \<open>split_lines nc =
           [str ''---'',
            str ''type: transcription'',
            str ''created: '' @ ?c,
            str ''source: '' @ source_value,
            str ''template_version: 1'',
            str ''areas: []'',
            str ''projects: []'',
            str ''summary: ""'',
            str ''---'',
            []] @ split_lines (trim t @ [0x0A])\<close>
    unfolding nc by (rule note_lines_split [OF n assms(5)])
  from nc have u: "t \<noteq> trim t \<longrightarrow> nc \<noteq> unlines (note_lines ?c source_value t)"
    by (auto simp: unlines_note_lines_inject)
  from c p nc l u show ?thesis by blast
qed

text \<open>The text \<^verbatim>\<open>"  hi there  "\<close> at the sample instant.\<close>

theorem note_content_layout_witness:
  \<open>handleConvert int_runtime (constant_clock sample_date) (Inr sample_request) =
     ConvertResponse
       (unlines (note_lines (str ''2026-01-28'') (str ''superwhisper'') (str ''hi there'')))
       (emoji @ str '' 2026-01-29 10-30am'') \<and>
   date_pattern (str ''2026-01-28'') \<and>
   split_lines (unlines (note_lines (str ''2026-01-28'') (str ''superwhisper'') (str ''hi there''))) =
     [str ''---'',
      str ''type: transcription'',
      str ''created: 2026-01-28'',
      str ''source: superwhisper'',
      str ''template_version: 1'',
      str ''areas: []'',
      str ''projects: []'',
      str ''summary: ""'',
      str ''---'',
      [],
      str ''hi there'',
      []] \<and>
   unlines (note_lines (str ''2026-01-28'') (str ''superwhisper'') (str ''hi there'')) \<noteq>
     unlines (note_lines (str ''2026-01-28'') (str ''superwhisper'') (str ''  hi there  ''))\<close>
proof -
  have t: "read_property int_runtime sample_request (str ''text'')
      = Inr (Some (JStr (str ''  hi there  '')))"
    and s: "read_property int_runtime sample_request (str ''source'') = Inr None"
    and r: "ToString int_runtime (or_else int_runtime None (JStr (str ''superwhisper'')))
      = Inr (str ''superwhisper'')"
    and n: "0x0A \<notin> set (str ''superwhisper'')"
    and tr: "trim (str ''  hi there  '') = str ''hi there''"
    and ne: "str ''  hi there  '' \<noteq> str ''hi there''"
    by (simp_all add: sample_request_def str_def trim_def is_white_space_def)
  have d: "date_fields_ok (constant_clock sample_date 0)"
    "0 \<le> getUTCFullYear (constant_clock sample_date 0)"
    "getUTCFullYear (constant_clock sample_date 0) \<le> 9999"
    by (simp_all add: constant_clock_def sample_date_ok) (simp_all add: sample_date_def)
  have sl: "split_lines (str ''hi there'' @ [0x0A]) = [str ''hi there'', []]"
    by (simp add: str_def)
  have c: "split_first 0x54 (toISOString (constant_clock sample_date 0)) = str ''2026-01-28''"
    by (simp add: constant_clock_def sample_created)
  have lit: "str ''created: '' @ str ''2026-01-28'' = str ''created: 2026-01-28''"
    "str ''source: '' @ str ''superwhisper'' = str ''source: superwhisper''"
    by (simp_all add: str_def)
  note layout = note_content_layout [OF sample_convert t s r n d, unfolded c tr, THEN conjunct2]
  from layout have 1: "date_pattern (str ''2026-01-28'')" by blast
  from layout have 2: \<open>split_lines
      (unlines (note_lines (str ''2026-01-28'') (str ''superwhisper'') (str ''hi there''))) =
     [str ''---'', str ''type: transcription'', str ''created: 2026-01-28'',
      str ''source: superwhisper'', str ''template_version: 1'', str ''areas: []'',
      str ''projects: []'', str ''summary: ""'', str ''---'', [], str ''hi there'', []]\<close>
    by (simp add: sl lit)
  from layout ne have 3:
    "unlines (note_lines (str ''2026-01-28'') (str ''superwhisper'') (str ''hi there'')) \<noteq>
     unlines (note_lines (str ''2026-01-28'') (str ''superwhisper'') (str ''  hi there  ''))"
    by blast
  from sample_convert 1 2 3 show ?thesis by blast
qed

text \<open>
  Claim C6. After a successful convert, the frontmatter's source is the request's
  \<^verbatim>\<open>source\<close> when that is present and truthy (for a string, the string itself), and
  \<^verbatim>\<open>superwhisper\<close> when it is absent or falsy.
\<close>

theorem source_default:
  assumes "handleConvert rt clock outcome = ConvertResponse nc fn"
  shows "\<exists>b fld source_value body_text. outcome = Inr b \<and>
     read_property rt b (str ''source'') = Inr fld \<and>
     nc = unlines (note_lines (iso_date (clock 0)) source_value body_text) \<and>
     (truthy rt fld \<longrightarrow> (\<exists>v. fld = Some v \<and> ToString rt v = Inr source_value)) \<and>
     (\<forall>s. fld = Some (JStr s) \<and> s \<noteq> [] \<longrightarrow> source_value = s) \<and>
     (\<not> truthy rt fld \<longrightarrow> source_value = str ''superwhisper'')"
proof -
  from handleConvert_success_elim [OF assms] obtain b t fld s where
    *: "outcome = Inr b" "read_property rt b (str ''source'') = Inr fld"
      "ToString rt (or_else rt fld (JStr (str ''superwhisper''))) = Inr s"
      "nc = unlines (note_lines (iso_date (clock 0)) s (trim t))"
    by blast
  have a: "truthy rt fld \<longrightarrow> (\<exists>v. fld = Some v \<and> ToString rt v = Inr s)"
    using *(3) by (cases fld) auto
  have b: "\<forall>x. fld = Some (JStr x) \<and> x \<noteq> [] \<longrightarrow> s = x"
    using *(3) by auto
  have c: "\<not> truthy rt fld \<longrightarrow> s = str ''superwhisper''"
    using *(3) by (cases fld) auto
  from * a b c show ?thesis by blast
qed

text \<open>A request without a source.\<close>

theorem source_default_witness:
  "handleConvert int_runtime (constant_clock sample_date) (Inr sample_request) =
     ConvertResponse
       (unlines (note_lines (str ''2026-01-28'') (str ''superwhisper'') (str ''hi there'')))
       (emoji @ str '' 2026-01-29 10-30am'') \<and>
   read_property int_runtime sample_request (str ''source'') = Inr None \<and>
   (\<exists>source_value body_text.
      unlines (note_lines (str ''2026-01-28'') (str ''superwhisper'') (str ''hi there'')) =
        unlines (note_lines (str ''2026-01-28'') source_value body_text) \<and>
      source_value = str ''superwhisper'')"
proof -
  have r: "read_property int_runtime sample_request (str ''source'') = Inr None"
    by (simp add: sample_request_def str_def)
  from source_default [OF sample_convert] r show ?thesis
    using sample_convert by (auto simp: constant_clock_def sample_iso_date)
qed

text \<open>
  Claim C10, as stated, fails: the source \<^verbatim>\<open>{"toString": 1}\<close> is truthy, but a
  template literal cannot render it (\<^verbatim>\<open>ToPrimitive\<close> throws), the \<^verbatim>\<open>catch\<close> clause
  takes over, and the response is 400.
\<close>

theorem unrenderable_source_counterexample:
  "read_property int_runtime unrenderable_request (str ''text'') = Inr (Some (JStr (str ''hello''))) \<and>
   trim (str ''hello'') = str ''hello'' \<and>
   read_property int_runtime unrenderable_request (str ''source'')
     = Inr (Some (JObj [(str ''toString'', JNum 1)])) \<and>
   truthy int_runtime (Some (JObj [(str ''toString'', JNum 1)])) \<and>
   handler int_runtime (constant_clock sample_date) (post_convert (Inr unrenderable_request)) =
     \<lparr>status = 400, headers = json_headers,
      response_body = JSON_stringify (JObj
        [(str ''success'', JBool False), (str ''error'', JStr (str ''No default value''))])\<rparr>"
proof -
  have t: "read_property int_runtime unrenderable_request (str ''text'')
      = Inr (Some (JStr (str ''hello'')))"
    and s: "read_property int_runtime unrenderable_request (str ''source'')
      = Inr (Some (JObj [(str ''toString'', JNum 1)]))"
    and n: "trim (str ''hello'') = str ''hello''" "trim (str ''hello'') \<noteq> []"
    by (simp_all add: unrenderable_request_def str_def trim_def is_white_space_def)
  have "handleConvert_try int_runtime (constant_clock sample_date) (Inr unrenderable_request)
      = Inl (ErrorInstance (str ''No default value''))"
    using handleConvert_try_accepted [OF t n(2) s, of "constant_clock sample_date"]
    by (simp add: int_runtime_def)
  then have "handleConvert int_runtime (constant_clock sample_date) (Inr unrenderable_request)
      = ErrorResponse (str ''No default value'')"
    by (simp add: handleConvert_def)
  with t s n show ?thesis
    by (simp add: handler_def post_convert_def Let_def method_literals)
qed

text \<open>
  Claim C10, amended. The type of \<^verbatim>\<open>source\<close> is never checked. For a request whose
  text is a string that is not empty after trimming and whose source is truthy: when the
  source has a string rendering (every string, number, \<^verbatim>\<open>true\<close> and object without an
  own property \<^verbatim>\<open>toString\<close> has one), the response is 200 and the rendering stands
  unescaped in the \<^verbatim>\<open>source:\<close> line; when rendering throws, the response is the 400
  failure with the thrown message.
\<close>

theorem unchecked_source:
  assumes "read_property rt b (str ''text'') = Inr (Some (JStr t))" and "trim t \<noteq> []"
    and "read_property rt b (str ''source'') = Inr (Some v)" and "truthy rt (Some v)"
  shows "(\<forall>s. ToString rt v = Inr s \<longrightarrow>
            handler rt clock (post_convert (Inr b)) =
              \<lparr>status = 200, headers = json_headers,
               response_body = JSON_stringify (JObj
                 [(str ''success'', JBool True),
                  (str ''noteContent'',
                     JStr (unlines (note_lines (iso_date (clock 0)) s (trim t)))),
                  (str ''filename'', JStr (generateFilename (clock 1)))])\<rparr>) \<and>
         (\<forall>e. ToString rt v = Inl e \<longrightarrow>
            handler rt clock (post_convert (Inr b)) =
              \<lparr>status = 400, headers = json_headers,
               response_body = JSON_stringify (JObj
                 [(str ''success'', JBool False), (str ''error'', JStr (catch_message e))])\<rparr>) \<and>
         (\<forall>s. v = JStr s \<longrightarrow> ToString rt v = Inr s) \<and>
         (\<forall>n. v = JNum n \<longrightarrow> ToString rt v = Inr (number_toString rt n)) \<and>
         (v = JBool True \<longrightarrow> ToString rt v = Inr (str ''true'')) \<and>
         (\<forall>kvs. v = JObj kvs \<and> map_of kvs (str ''toString'') = None \<longrightarrow>
            ToString rt v = Inr (str ''[object Object]'')) \<and>
         (\<forall>kvs. v = JObj kvs \<and> map_of kvs (str ''toString'') \<noteq> None \<longrightarrow>
            ToString rt v = Inl (ErrorInstance (no_primitive_message rt)))"
proof -
  have p: "http_method (post_convert (Inr b)) = str ''POST''"
    "pathname (post_convert (Inr b)) = str ''/convert''"
    "json_outcome (post_convert (Inr b)) = Inr b"
    by (simp_all add: post_convert_def)
  note h = post_convert_response [OF p(1,2), of rt clock, unfolded p(3)]
  from assms(4) have o: "or_else rt (Some v) (JStr (str ''superwhisper'')) = v" by simp
  note eq = handleConvert_try_accepted [OF assms(1-3), of clock, unfolded o]
  have ok: "\<forall>s. ToString rt v = Inr s \<longrightarrow> handleConvert rt clock (Inr b) =
      ConvertResponse (unlines (note_lines (iso_date (clock 0)) s (trim t)))
        (generateFilename (clock 1))"
    by (simp add: handleConvert_def eq)
  have bad: "\<forall>e. ToString rt v = Inl e \<longrightarrow> handleConvert rt clock (Inr b) =
      ErrorResponse (catch_message e)"
    by (simp add: handleConvert_def eq)
  from ok bad show ?thesis by (auto simp: h)
qed

text \<open>The source 42.\<close>

theorem unchecked_source_witness:
  "handler int_runtime (constant_clock sample_date) (post_convert (Inr numeric_source_request)) =
     \<lparr>status = 200, headers = json_headers,
      response_body = JSON_stringify (JObj
        [(str ''success'', JBool True),
         (str ''noteContent'',
            JStr (unlines (note_lines (str ''2026-01-28'') (str ''42'') (str ''hello'')))),
         (str ''filename'', JStr (emoji @ str '' 2026-01-29 10-30am''))])\<rparr>"
proof -
  have t: "read_property int_runtime numeric_source_request (str ''text'')
      = Inr (Some (JStr (str ''hello'')))"
    and s: "read_property int_runtime numeric_source_request (str ''source'') = Inr (Some (JNum 42))"
    and n: "trim (str ''hello'') \<noteq> []" "trim (str ''hello'') = str ''hello''"
    and y: "truthy int_runtime (Some (JNum 42))"
    and r: "ToString int_runtime (JNum 42) = Inr (str ''42'')"
    by (simp_all add: numeric_source_request_def str_def trim_def is_white_space_def
        int_runtime_def String_of_def decimal.simps digit_def)
  have f: "generateFilename sample_date = emoji @ str '' 2026-01-29 10-30am''"
    by (simp add: sample_date_def generateFilename_def generateTimestamp_def String_of_def
        decimal.simps padStart_def str_def digit_def Let_def)
  from unchecked_source [OF t n(1) s y, of "constant_clock sample_date"] r
  show ?thesis
    by (simp add: constant_clock_def sample_iso_date f n(2))
qed

section \<open>The filename\<close>

text \<open>
  Claim C3, as stated for every wall-clock time, fails in the year 10000: the year is
  written with all its digits, five of them, where the pattern has four.
\<close>

theorem year_10000_counterexample:
  "date_fields_ok year_10000 \<and>
   success (handleConvert int_runtime (constant_clock year_10000) (Inr year_10000_request)) \<and>
   filename (handleConvert int_runtime (constant_clock year_10000) (Inr year_10000_request)) =
     emoji @ str '' 10000-01-01 12-00am'' \<and>
   \<not> filename_pattern
     (filename (handleConvert int_runtime (constant_clock year_10000) (Inr year_10000_request)))"
proof -
  have t: "read_property int_runtime year_10000_request (str ''text'') = Inr (Some (JStr (str ''hello'')))"
    and s: "read_property int_runtime year_10000_request (str ''source'') = Inr None"
    and n: "trim (str ''hello'') \<noteq> []"
    by (simp_all add: year_10000_request_def str_def trim_def is_white_space_def)
  have f: "generateFilename year_10000 = emoji @ str '' 10000-01-01 12-00am''"
    by (simp add: year_10000_def generateFilename_def generateTimestamp_def String_of_def
        decimal.simps padStart_def str_def digit_def Let_def)
  have c: "handleConvert int_runtime (constant_clock year_10000) (Inr year_10000_request) =
      ConvertResponse
        (unlines (note_lines (iso_date year_10000) (str ''superwhisper'') (trim (str ''hello''))))
        (emoji @ str '' 10000-01-01 12-00am'')"
    using handleConvert_try_accepted [OF t n s, of "constant_clock year_10000"] f
    by (simp add: handleConvert_def constant_clock_def)
  have p: "\<not> filename_pattern (emoji @ str '' 10000-01-01 12-00am'')"
    by (simp add: filename_pattern_def emoji_def str_def)
  have "date_fields_ok year_10000"
    by (simp add: date_fields_ok_def year_10000_def)
  with c p show ?thesis by simp
qed

text \<open>
  Claim C3, amended. After a successful convert at a wall-clock time whose local year has
  four digits, the filename is the marker, a space, the date \<^verbatim>\<open>YYYY-MM-DD\<close>, a space,
  the hour from 1 to 12 without a leading zero, a hyphen, two digits of minutes and
  \<^verbatim>\<open>am\<close> or \<^verbatim>\<open>pm\<close>. It is computed from the clock alone.
\<close>

theorem filename_format:
  assumes "handleConvert rt clock outcome = ConvertResponse nc fn"
    and "date_fields_ok (clock 1)"
    and "1000 \<le> getFullYear (clock 1)" and "getFullYear (clock 1) \<le> 9999"
  shows "fn = generateFilename (clock 1) \<and> filename_pattern fn"
proof -
  from handleConvert_success_elim [OF assms(1)] have "fn = generateFilename (clock 1)"
    by blast
  with filename_pattern_four_digit_year [OF assms(2-4)] show ?thesis by simp
qed

text \<open>The sample instant, 10:30 in the morning.\<close>

theorem filename_format_witness:
  "filename (handleConvert int_runtime (constant_clock sample_date) (Inr sample_request)) =
     emoji @ str '' 2026-01-29 10-30am'' \<and>
   filename_pattern (emoji @ str '' 2026-01-29 10-30am'')"
proof -
  have "date_fields_ok (constant_clock sample_date 1)"
    "1000 \<le> getFullYear (constant_clock sample_date 1)"
    "getFullYear (constant_clock sample_date 1) \<le> 9999"
    by (simp_all add: constant_clock_def sample_date_ok) (simp_all add: sample_date_def)
  from filename_format [OF sample_convert this]
  have "filename_pattern (emoji @ str '' 2026-01-29 10-30am'')" by (rule conjunct2)
  then show ?thesis by (simp add: sample_convert)
qed

text \<open>
  Claim C9. After a successful convert, \<^verbatim>\<open>created\<close> is the ISO date of the first
  reading of the clock and the filename is the timestamp of the second. The ISO date is
  the UTC year, month and day of the reading and does not change with its local fields;
  the filename is the local year, month, day, hour and minutes and does not change with
  the UTC fields. When one instant serves both readings and its UTC date is not its
  local date, the date in \<^verbatim>\<open>created\<close> is not the date in the filename of the same
  response. Such a response exists: at 2026-01-28T23:30Z on a server eleven hours
  ahead, the convert of the sample request answers with \<^verbatim>\<open>created\<close> 2026-01-28
  and a filename that says 2026-01-29.
\<close>

theorem created_utc_filename_local:
  "(handleConvert rt clock outcome = ConvertResponse nc fn \<longrightarrow>
      (\<exists>source_value body_text.
         nc = unlines (note_lines (iso_date (clock 0)) source_value body_text)) \<and>
      fn = generateFilename (clock 1)) \<and>
   (date_fields_ok d \<and> 0 \<le> getUTCFullYear d \<and> getUTCFullYear d \<le> 9999 \<longrightarrow>
      iso_date d = yyyy_mm_dd (nat (getUTCFullYear d)) (getUTCMonth d + 1) (getUTCDate d)) \<and>
   (date_fields_ok d \<and> 1000 \<le> getFullYear d \<and> getFullYear d \<le> 9999 \<longrightarrow>
      generateFilename d =
        emoji @ str '' '' @ yyyy_mm_dd (nat (getFullYear d)) (getMonth d + 1) (getDate d) @
        str '' '' @ decimal (hour12 (getHours d)) @
        [0x2D, digit (getMinutes d div 10), digit (getMinutes d mod 10)] @
        (if getHours d \<ge> 12 then str ''pm'' else str ''am'')) \<and>
   (handleConvert rt clock outcome = ConvertResponse nc fn \<and> clock 0 = d \<and> clock 1 = d \<and>
    date_fields_ok d \<and> 0 \<le> getUTCFullYear d \<and> getUTCFullYear d \<le> 9999 \<and>
    1000 \<le> getFullYear d \<and> getFullYear d \<le> 9999 \<and>
    (getUTCFullYear d, getUTCMonth d, getUTCDate d) \<noteq> (getFullYear d, getMonth d, getDate d) \<longrightarrow>
      (\<exists>created source_value body_text.
         nc = unlines (note_lines created source_value body_text) \<and>
         created = yyyy_mm_dd (nat (getUTCFullYear d)) (getUTCMonth d + 1) (getUTCDate d) \<and>
         take 10 (drop 3 fn) = yyyy_mm_dd (nat (getFullYear d)) (getMonth d + 1) (getDate d) \<and>
         created \<noteq> take 10 (drop 3 fn))) \<and>
   iso_date (d\<lparr>getFullYear := y, getMonth := m, getDate := dd, getHours := h,
               getMinutes := mi\<rparr>) = iso_date d \<and>
   generateFilename (d\<lparr>getUTCFullYear := uy, getUTCMonth := um, getUTCDate := ud,
               getUTCHours := uh, getUTCMinutes := umi, getUTCSeconds := us,
               getUTCMilliseconds := ums\<rparr>) = generateFilename d \<and>
   date_fields_ok sample_date \<and>
   handleConvert int_runtime (constant_clock sample_date) (Inr sample_request) =
     ConvertResponse
       (unlines (note_lines (str ''2026-01-28'') (str ''superwhisper'') (str ''hi there'')))
       (emoji @ str '' 2026-01-29 10-30am'') \<and>
   take 10 (drop 3 (emoji @ str '' 2026-01-29 10-30am'')) = str ''2026-01-29'' \<and>
   str ''2026-01-28'' \<noteq> str ''2026-01-29''"
proof -
  have a: "handleConvert rt clock outcome = ConvertResponse nc fn \<longrightarrow>
      (\<exists>source_value body_text.
         nc = unlines (note_lines (iso_date (clock 0)) source_value body_text)) \<and>
      fn = generateFilename (clock 1)"
    using handleConvert_success_elim [of rt clock outcome nc fn] by blast
  have b: "date_fields_ok d \<and> 0 \<le> getUTCFullYear d \<and> getUTCFullYear d \<le> 9999 \<longrightarrow>
      iso_date d = yyyy_mm_dd (nat (getUTCFullYear d)) (getUTCMonth d + 1) (getUTCDate d)"
    by (simp add: iso_date_yyyy_mm_dd)
  have c: "date_fields_ok d \<and> 1000 \<le> getFullYear d \<and> getFullYear d \<le> 9999 \<longrightarrow>
      generateFilename d =
        emoji @ str '' '' @ yyyy_mm_dd (nat (getFullYear d)) (getMonth d + 1) (getDate d) @
        str '' '' @ decimal (hour12 (getHours d)) @
        [0x2D, digit (getMinutes d div 10), digit (getMinutes d mod 10)] @
        (if getHours d \<ge> 12 then str ''pm'' else str ''am'')"
    using generateFilename_four_digit_year [of d] by blast
  have e: "handleConvert rt clock outcome = ConvertResponse nc fn \<and> clock 0 = d \<and> clock 1 = d \<and>
    date_fields_ok d \<and> 0 \<le> getUTCFullYear d \<and> getUTCFullYear d \<le> 9999 \<and>
    1000 \<le> getFullYear d \<and> getFullYear d \<le> 9999 \<and>
    (getUTCFullYear d, getUTCMonth d, getUTCDate d) \<noteq> (getFullYear d, getMonth d, getDate d) \<longrightarrow>
      (\<exists>created source_value body_text.
         nc = unlines (note_lines created source_value body_text) \<and>
         created = yyyy_mm_dd (nat (getUTCFullYear d)) (getUTCMonth d + 1) (getUTCDate d) \<and>
         take 10 (drop 3 fn) = yyyy_mm_dd (nat (getFullYear d)) (getMonth d + 1) (getDate d) \<and>
         created \<noteq> take 10 (drop 3 fn))"
  proof (intro impI, elim conjE)
    assume s: "handleConvert rt clock outcome = ConvertResponse nc fn"
      and c0: "clock 0 = d" and c1: "clock 1 = d" and ok: "date_fields_ok d"
      and u: "0 \<le> getUTCFullYear d" "getUTCFullYear d \<le> 9999"
      and l: "1000 \<le> getFullYear d" "getFullYear d \<le> 9999"
      and ne: "(getUTCFullYear d, getUTCMonth d, getUTCDate d) \<noteq> (getFullYear d, getMonth d, getDate d)"
    let ?u = "yyyy_mm_dd (nat (getUTCFullYear d)) (getUTCMonth d + 1) (getUTCDate d)"
    let ?l = "yyyy_mm_dd (nat (getFullYear d)) (getMonth d + 1) (getDate d)"
    from handleConvert_success_elim [OF s] c0 c1 obtain sv bt where
      nc: "nc = unlines (note_lines (iso_date d) sv bt)" and fn: "fn = generateFilename d"
      by auto
    have 1: "iso_date d = ?u" using ok u by (rule iso_date_yyyy_mm_dd)
    have 2: "take 10 (drop 3 fn) = ?l" unfolding fn using ok l by (rule filename_date_part)
    from ok have bounds: "getUTCMonth d + 1 < 100" "getMonth d + 1 < 100"
      "getUTCDate d < 100" "getDate d < 100"
      by (simp_all add: date_fields_ok_def)
    from u l have yb: "nat (getUTCFullYear d) < 10000" "nat (getFullYear d) < 10000" by simp_all
    have "?u \<noteq> ?l"
    proof
      assume "?u = ?l"
      from yyyy_mm_dd_inject [OF yb bounds this] u l ne show False by auto
    qed
    with nc 1 2 show "\<exists>created source_value body_text.
         nc = unlines (note_lines created source_value body_text) \<and>
         created = ?u \<and> take 10 (drop 3 fn) = ?l \<and> created \<noteq> take 10 (drop 3 fn)"
      by auto
  qed
  have f: "iso_date (d\<lparr>getFullYear := y, getMonth := m, getDate := dd, getHours := h,
               getMinutes := mi\<rparr>) = iso_date d"
    by (simp add: iso_date_def)
  have g: "generateFilename (d\<lparr>getUTCFullYear := uy, getUTCMonth := um, getUTCDate := ud,
               getUTCHours := uh, getUTCMinutes := umi, getUTCSeconds := us,
               getUTCMilliseconds := ums\<rparr>) = generateFilename d"
    by (simp add: generateFilename_def generateTimestamp_def)
  have k: "take 10 (drop 3 (emoji @ str '' 2026-01-29 10-30am'')) = str ''2026-01-29''"
    "str ''2026-01-28'' \<noteq> str ''2026-01-29''"
    by (simp_all add: emoji_def str_def)
  from a b c e f g sample_date_ok sample_convert k show ?thesis by blast
qed

text \<open>One reading of the clock for both, at the sample instant.\<close>

theorem created_utc_filename_local_witness:
  "handleConvert int_runtime (constant_clock sample_date) (Inr sample_request) =
     ConvertResponse
       (unlines (note_lines (str ''2026-01-28'') (str ''superwhisper'') (str ''hi there'')))
       (emoji @ str '' 2026-01-29 10-30am'') \<and>
   (\<exists>created source_value body_text.
      noteContent (handleConvert int_runtime (constant_clock sample_date) (Inr sample_request)) =
        unlines (note_lines created source_value body_text) \<and>
      created = yyyy_mm_dd 2026 1 28 \<and>
      take 10 (drop 3
        (filename (handleConvert int_runtime (constant_clock sample_date) (Inr sample_request)))) =
        yyyy_mm_dd 2026 1 29 \<and>
      created \<noteq> take 10 (drop 3
        (filename (handleConvert int_runtime (constant_clock sample_date) (Inr sample_request)))))"
proof -
  have h: "constant_clock sample_date 0 = sample_date" "constant_clock sample_date 1 = sample_date"
    "0 \<le> getUTCFullYear sample_date" "getUTCFullYear sample_date \<le> 9999"
    "1000 \<le> getFullYear sample_date" "getFullYear sample_date \<le> 9999"
    "(getUTCFullYear sample_date, getUTCMonth sample_date, getUTCDate sample_date) \<noteq>
     (getFullYear sample_date, getMonth sample_date, getDate sample_date)"
    by (simp_all add: constant_clock_def) (simp_all add: sample_date_def)
  have v: "nat (getUTCFullYear sample_date) = 2026" "getUTCMonth sample_date + 1 = 1"
    "getUTCDate sample_date = 28" "nat (getFullYear sample_date) = 2026"
    "getMonth sample_date + 1 = 1" "getDate sample_date = 29"
    by (simp_all add: sample_date_def)
  note inst = created_utc_filename_local [of int_runtime "constant_clock sample_date"
      "Inr sample_request"
      "unlines (note_lines (str ''2026-01-28'') (str ''superwhisper'') (str ''hi there''))"
      "emoji @ str '' 2026-01-29 10-30am''" sample_date]
  from inst sample_convert sample_date_ok h
  have "\<exists>created source_value body_text.
      unlines (note_lines (str ''2026-01-28'') (str ''superwhisper'') (str ''hi there'')) =
        unlines (note_lines created source_value body_text) \<and>
      created = yyyy_mm_dd (nat (getUTCFullYear sample_date)) (getUTCMonth sample_date + 1)
        (getUTCDate sample_date) \<and>
      take 10 (drop 3 (emoji @ str '' 2026-01-29 10-30am'')) =
        yyyy_mm_dd (nat (getFullYear sample_date)) (getMonth sample_date + 1) (getDate sample_date) \<and>
      created \<noteq> take 10 (drop 3 (emoji @ str '' 2026-01-29 10-30am''))"
    by blast
  note e = this [unfolded v]
  show ?thesis
    unfolding sample_convert convert_result.sel by (intro conjI refl) (rule e)
qed

end
